theory Spec2Isabelle
  imports Complex_Main
begin

section \<open>Data model of the route handler (internal/server/web/proxy/route.go)\<close>

text \<open>
  Byte slices and Go strings are character lists. Go's \<open>int\<close> values (status codes, token
  counts, durations in nanoseconds) are carried as \<open>int\<close>: the handler compares and
  forwards them and never computes with them. A \<open>float64\<close> cost is carried as a
  \<open>real\<close>: the handler performs no arithmetic on it, it only stores what an estimator
  returned, or the literal 0.
\<close>

type_synonym bytes = string

text \<open>
  Go errors. \<open>errors.Is(err, context.DeadlineExceeded)\<close> walks the chain of wrapped
  errors, so an error is either the deadline sentinel, some other leaf, or a wrapper.
\<close>

datatype go_error
  = DeadlineExceeded
  | ErrorString string
  | Wrapped string go_error

fun errors_Is_DeadlineExceeded :: "go_error \<Rightarrow> bool" where
  "errors_Is_DeadlineExceeded DeadlineExceeded = True"
| "errors_Is_DeadlineExceeded (ErrorString m) = False"
| "errors_Is_DeadlineExceeded (Wrapped m e) = errors_Is_DeadlineExceeded e"

record ResponseKey =
  KeyId :: string
  CostLimitInUsdUnit :: string

record Setting =
  Id :: string

record CacheConfig =
  Ttl :: string

text \<open>
  \<open>route.Route\<close>: the handler reads \<open>CacheConfig\<close> (a pointer, so optional) and the
  result of \<open>ShouldRunEmbeddings()\<close>.
\<close>

record Route =
  RouteCacheConfig :: "CacheConfig option"
  ShouldRunEmbeddings :: bool

record HttpRequest =
  ReqPath :: string
  ReqBody :: bytes

text \<open>
  \<open>http.Response\<close> as the handler uses it: the status code, the header in the order
  the \<open>range\<close> loop visits it, and what \<open>io.ReadAll(res.Body)\<close> returns.
\<close>

record HttpResponse =
  StatusCode :: int
  Header :: "(string \<times> string list) list"
  ReadAllBody :: "go_error + bytes"

record RunStepsResponse =
  Model :: string
  Provider :: string
  Response :: HttpResponse

record RouteRequest =
  Settings :: "string \<rightharpoonup> Setting"
  Key :: ResponseKey
  Forwarded :: HttpRequest

record Usage =
  PromptTokens :: int
  CompletionTokens :: int
  TotalTokens :: int

record ChatCompletionResponse =
  ChatModel :: string
  ChatUsage :: Usage

text \<open>Values stored under the string keys of the gin context (\<open>map[string]any\<close>).\<close>

datatype ctx_value
  = VKey ResponseKey
  | VRoute Route
  | VSettings "Setting list"
  | VString string
  | VFloat real
  | VInt int

text \<open>
  Everything the handler does to the outside world, in the order it does it: telemetry,
  log lines, calls to the cache, the route, the recorder, writes to the client response,
  and the deferred releases.
\<close>

datatype effect
  = StatsIncr string
  | StatsTiming string
  | LogError string go_error
  | LogOpenAiError
  | CacheGetBytes string
  | CacheStoreBytes string bytes int
  | RouteRunSteps RouteRequest
  | RecorderRecordKeySpend string int string
  | RespHeader string string
  | RespJSON int string
  | RespData int string bytes
  | BodyClose
  | RunResCancel

text \<open>
  The collaborators the handler closes over or calls from libraries. An estimator
  returns Go's pair \<open>(float64, error)\<close>.
\<close>

record deps =
  GetBytes :: "string \<Rightarrow> go_error + bytes"
  StoreBytes :: "string \<Rightarrow> bytes \<Rightarrow> int \<Rightarrow> go_error option"
  ParseDuration :: "string \<Rightarrow> go_error + int"
  RunSteps :: "Route \<Rightarrow> RouteRequest \<Rightarrow> go_error + RunStepsResponse"
  UnmarshalEmbeddingBase64 :: "bytes \<Rightarrow> go_error + Usage"
  UnmarshalEmbedding :: "bytes \<Rightarrow> go_error + Usage"
  UnmarshalChatCompletion :: "bytes \<Rightarrow> go_error + ChatCompletionResponse"
  UnmarshalErrorResponse :: "bytes \<Rightarrow> go_error option"
  aoe_EstimateEmbeddingsInputCost :: "string \<Rightarrow> int \<Rightarrow> real \<times> go_error option"
  aoe_EstimateTotalCost :: "string \<Rightarrow> int \<Rightarrow> int \<Rightarrow> real \<times> go_error option"
  e_EstimateEmbeddingsInputCost :: "string \<Rightarrow> int \<Rightarrow> real \<times> go_error option"
  e_EstimateTotalCost :: "string \<Rightarrow> int \<Rightarrow> int \<Rightarrow> real \<times> go_error option"

record recorder =
  RecordKeySpend :: "string \<Rightarrow> int \<Rightarrow> string \<Rightarrow> go_error option"

record GinContext =
  Request :: "HttpRequest option"
  FullPath :: string
  CtxKeys :: "string \<rightharpoonup> ctx_value"

text \<open>The state a handler run threads through: the context keys and the effects so far.\<close>

record hstate =
  Keys :: "string \<rightharpoonup> ctx_value"
  Effects :: "effect list"

definition emit :: "effect \<Rightarrow> hstate \<Rightarrow> hstate" where
  "emit ev s = s\<lparr>Effects := Effects s @ [ev]\<rparr>"

definition c_Set :: "string \<Rightarrow> ctx_value \<Rightarrow> hstate \<Rightarrow> hstate" where
  "c_Set k v s = s\<lparr>Keys := (Keys s)(k \<mapsto> v)\<rparr>"

text \<open>\<open>c.GetString\<close>: the empty string when the key is absent or not a string.\<close>

definition c_GetString :: "hstate \<Rightarrow> string \<Rightarrow> string" where
  "c_GetString s k = (case Keys s k of Some (VString v) \<Rightarrow> v | _ \<Rightarrow> [])"

definition http_StatusOK :: int where "http_StatusOK = 200"
definition http_StatusUnauthorized :: int where "http_StatusUnauthorized = 401"
definition http_StatusNotFound :: int where "http_StatusNotFound = 404"
definition http_StatusRequestTimeout :: int where "http_StatusRequestTimeout = 408"
definition http_StatusInternalServerError :: int where "http_StatusInternalServerError = 500"

section \<open>parseResult\<close>

text \<open>
  The body of \<open>parseResult\<close> up to its \<open>return\<close>: the returned error and the values of
  the locals \<open>cost\<close>, \<open>promptTokenCounts\<close> and \<open>completionTokenCounts\<close> at that
  moment. In the embeddings branch the estimate is assigned to \<open>cost\<close> only after the
  error check; in the chat branch \<open>cost, err = ...\<close> assigns before it.
\<close>

definition parseResult_locals ::
  "deps \<Rightarrow> string \<Rightarrow> bool \<Rightarrow> bytes \<Rightarrow> string \<Rightarrow> string \<Rightarrow> go_error option \<times> real \<times> int \<times> int" where
  "parseResult_locals d format runEmbeddings bs model provider =
     (if runEmbeddings then
        (case (if format = ''base64'' then UnmarshalEmbeddingBase64 d bs
               else UnmarshalEmbedding d bs) of
           Inl err \<Rightarrow> (Some err, 0, 0, 0)
         | Inr u \<Rightarrow>
             (if provider = ''azure'' then
                (case aoe_EstimateEmbeddingsInputCost d model (TotalTokens u) of
                   (ecost, Some err) \<Rightarrow> (Some err, 0, PromptTokens u, 0)
                 | (ecost, None) \<Rightarrow> (None, ecost, PromptTokens u, 0))
              else if provider = ''openai'' then
                (case e_EstimateEmbeddingsInputCost d model (TotalTokens u) of
                   (ecost, Some err) \<Rightarrow> (Some err, 0, PromptTokens u, 0)
                 | (ecost, None) \<Rightarrow> (None, ecost, PromptTokens u, 0))
              else (None, 0, PromptTokens u, 0)))
      else
        (case UnmarshalChatCompletion d bs of
           Inl err \<Rightarrow> (Some err, 0, 0, 0)
         | Inr chatRes \<Rightarrow>
             (if provider = ''azure'' then
                (case aoe_EstimateTotalCost d (ChatModel chatRes)
                        (PromptTokens (ChatUsage chatRes)) (CompletionTokens (ChatUsage chatRes)) of
                   (cost, err) \<Rightarrow>
                     (err, cost, PromptTokens (ChatUsage chatRes), CompletionTokens (ChatUsage chatRes)))
              else if provider = ''openai'' then
                (case e_EstimateTotalCost d (ChatModel chatRes)
                        (PromptTokens (ChatUsage chatRes)) (CompletionTokens (ChatUsage chatRes)) of
                   (cost, err) \<Rightarrow>
                     (err, cost, PromptTokens (ChatUsage chatRes), CompletionTokens (ChatUsage chatRes)))
              else (None, 0, PromptTokens (ChatUsage chatRes), CompletionTokens (ChatUsage chatRes)))))"

text \<open>
  \<open>parseResult\<close>: the deferred closure runs on every return and sets the four context
  keys, in this order. The recorder \<open>r\<close> and the key \<open>kc\<close> are parameters as in the
  source; the only statements that used them are commented out there.
\<close>

definition parseResult ::
  "deps \<Rightarrow> recorder \<Rightarrow> ResponseKey \<Rightarrow> bool \<Rightarrow> bytes \<Rightarrow> string \<Rightarrow> string \<Rightarrow> hstate
     \<Rightarrow> go_error option \<times> hstate" where
  "parseResult d r kc runEmbeddings bs model provider s =
     (case parseResult_locals d (c_GetString s ''encoding_format'') runEmbeddings bs model provider of
        (err, cost, promptTokenCounts, completionTokenCounts) \<Rightarrow>
          (err,
           c_Set ''completionTokenCount'' (VInt completionTokenCounts)
             (c_Set ''promptTokenCount'' (VInt promptTokenCounts)
               (c_Set ''costInUsd'' (VFloat cost)
                 (c_Set ''provider'' (VString provider) s)))))"

section \<open>getRouteHandler\<close>

text \<open>The helper \<open>JSON(c, code, message)\<close> of the package, recorded as the call made.\<close>

definition JSON :: "int \<Rightarrow> string \<Rightarrow> hstate \<Rightarrow> hstate" where
  "JSON code message s = emit (RespJSON code message) s"

definition c_Data :: "int \<Rightarrow> string \<Rightarrow> bytes \<Rightarrow> hstate \<Rightarrow> hstate" where
  "c_Data code contentType bs s = emit (RespData code contentType bs) s"

definition logError :: "string \<Rightarrow> go_error \<Rightarrow> hstate \<Rightarrow> hstate" where
  "logError msg err s = emit (LogError msg err) s"

text \<open>The loop building \<open>settingsMap\<close>: a later setting with the same id wins.\<close>

definition settingsMap_of :: "Setting list \<Rightarrow> (string \<rightharpoonup> Setting)" where
  "settingsMap_of settings = fold (\<lambda>setting m. m(Id setting \<mapsto> setting)) settings Map.empty"

text \<open>The nested loops over \<open>res.Header\<close>: one \<open>c.Header(name, value)\<close> per value.\<close>

definition copyHeaders :: "(string \<times> string list) list \<Rightarrow> hstate \<Rightarrow> hstate" where
  "copyHeaders hs s =
     fold (\<lambda>(name, values) s1. fold (\<lambda>value s2. emit (RespHeader name value) s2) values s1) hs s"

text \<open>
  Lines 132 to 145: the store into the cache. Neither a TTL that does not parse nor a
  failing \<open>StoreBytes\<close> does more than log.
\<close>

definition storeResponse :: "deps \<Rightarrow> Route \<Rightarrow> string \<Rightarrow> bytes \<Rightarrow> hstate \<Rightarrow> hstate" where
  "storeResponse d rc cacheKey bs s =
     (if cacheKey \<noteq> [] then
        (case RouteCacheConfig rc of
           None \<Rightarrow> s
         | Some cc \<Rightarrow>
             (case ParseDuration d (Ttl cc) of
                Inl err \<Rightarrow> logError ''error when parsing cache config ttl'' err s
              | Inr parsed \<Rightarrow>
                  (case StoreBytes d cacheKey bs parsed of
                     Some err \<Rightarrow>
                       logError ''error when storing cached response'' err
                         (emit (CacheStoreBytes cacheKey bs parsed) s)
                   | None \<Rightarrow> emit (CacheStoreBytes cacheKey bs parsed) s)))
      else s)"

text \<open>Lines 128 to 151: the branch for an upstream status equal to 200.\<close>

definition onStatusOK ::
  "deps \<Rightarrow> recorder \<Rightarrow> ResponseKey \<Rightarrow> Route \<Rightarrow> string \<Rightarrow> RunStepsResponse \<Rightarrow> bytes \<Rightarrow> hstate \<Rightarrow> hstate" where
  "onStatusOK d r kc rc cacheKey runRes bs s =
     (let s1 = emit (StatsTiming ''bricksllm.proxy.get_route_handeler.success_latency'')
                 (emit (StatsIncr ''bricksllm.proxy.get_route_handeler.success'') s);
          s2 = storeResponse d rc cacheKey bs s1
      in case parseResult d r kc (ShouldRunEmbeddings rc) bs (Model runRes) (Provider runRes) s2 of
           (Some err, s3) \<Rightarrow> logError ''error when parsing run steps result'' err s3
         | (None, s3) \<Rightarrow> s3)"

text \<open>Lines 153 to 164: the branch for any other upstream status.\<close>

definition onStatusNotOK :: "deps \<Rightarrow> bytes \<Rightarrow> hstate \<Rightarrow> hstate" where
  "onStatusNotOK d bs s =
     (let s1 = emit (StatsIncr ''bricksllm.proxy.get_azure_embeddings_handler.error_response'')
                 (emit (StatsTiming ''bricksllm.proxy.get_azure_embeddings_handler.error_latency'') s);
          s2 = (case UnmarshalErrorResponse d bs of
                  Some err \<Rightarrow>
                    logError ''error when unmarshalling azure openai embedding error response body'' err s1
                | None \<Rightarrow> s1)
      in emit LogOpenAiError s2)"

text \<open>
  Lines 111 to 172, after \<open>RunSteps\<close> returned a result; the two deferred calls run last,
  in reverse order of their \<open>defer\<close> statements.
\<close>

definition afterRunSteps ::
  "deps \<Rightarrow> recorder \<Rightarrow> ResponseKey \<Rightarrow> Route \<Rightarrow> string \<Rightarrow> RunStepsResponse \<Rightarrow> hstate \<Rightarrow> hstate" where
  "afterRunSteps d r kc rc cacheKey runRes s =
     (let res = Response runRes;
          s1 = emit (StatsTiming ''bricksllm.proxy.get_route_handeler.latency'')
                 (c_Set ''model'' (VString (Model runRes)) s);
          s2 = (case ReadAllBody res of
                  Inl err \<Rightarrow>
                    JSON http_StatusInternalServerError ''[BricksLLM] failed to read route response body''
                      (logError ''error when reading route response body'' err s1)
                | Inr bs \<Rightarrow>
                    (let s3 = (if StatusCode res = http_StatusOK
                               then onStatusOK d r kc rc cacheKey runRes bs s1 else s1);
                         s4 = (if StatusCode res \<noteq> http_StatusOK then onStatusNotOK d bs s3 else s3)
                     in c_Data (StatusCode res) ''application/json'' bs (copyHeaders (Header res) s4)))
      in emit RunResCancel (emit BodyClose s2))"

text \<open>Lines 75 to 109: provider settings, then the route steps and their error cases.\<close>

definition runRoute ::
  "deps \<Rightarrow> recorder \<Rightarrow> HttpRequest \<Rightarrow> ResponseKey \<Rightarrow> Route \<Rightarrow> string \<Rightarrow> hstate \<Rightarrow> hstate" where
  "runRoute d r req kc rc cacheKey s =
     (case Keys s ''settings'' of
        Some (VSettings settings) \<Rightarrow>
          (let rq = \<lparr>Settings = settingsMap_of settings, Key = kc, Forwarded = req\<rparr>;
               s1 = emit (RouteRunSteps rq) s
           in case RunSteps d rc rq of
                Inl err \<Rightarrow>
                  (if errors_Is_DeadlineExceeded err then
                     JSON http_StatusRequestTimeout ''[BricksLLM] request timeout''
                       (logError ''running steps time out'' err
                         (emit (StatsIncr ''bricksllm.proxy.get_route_handeler.timeout'') s1))
                   else
                     JSON http_StatusInternalServerError ''[BricksLLM] cannot run route steps''
                       (logError ''error when running steps'' err
                         (emit (StatsIncr ''bricksllm.proxy.get_route_handeler.run_steps_error'') s1)))
              | Inr runRes \<Rightarrow> afterRunSteps d r kc rc cacheKey runRes s1)
      | _ \<Rightarrow>
          JSON http_StatusNotFound ''[BricksLLM] provider settings not found''
            (emit (StatsIncr ''bricksllm.proxy.get_route_handeler.provider_settings_not_found'') s))"

text \<open>Lines 60 to 73: the cache lookup, and the return on a hit.\<close>

definition lookupCache ::
  "deps \<Rightarrow> recorder \<Rightarrow> HttpRequest \<Rightarrow> ResponseKey \<Rightarrow> Route \<Rightarrow> hstate \<Rightarrow> hstate" where
  "lookupCache d r req kc rc s =
     (let cacheKey = c_GetString s ''cache_key'' in
      if cacheKey \<noteq> [] then
        (let s1 = emit (CacheGetBytes cacheKey) s in
         case GetBytes d cacheKey of
           Inr bs \<Rightarrow>
             (if bs \<noteq> [] then
                c_Data http_StatusOK ''application/json'' bs
                  (c_Set ''provider'' (VString ''cached'')
                    (emit (StatsTiming ''bricksllm.proxy.get_route_handeler.success_latency'')
                      (emit (StatsIncr ''bricksllm.proxy.get_route_handeler.success'') s1)))
              else runRoute d r req kc rc cacheKey s1)
         | Inl err \<Rightarrow> runRoute d r req kc rc cacheKey s1)
      else runRoute d r req kc rc cacheKey s)"

text \<open>
  The handler returned by \<open>getRouteHandler\<close>, run on one gin context. The clock, the
  telemetry tags, the correlation id and the \<open>prod\<close> flag only feed log lines and
  timings and are left out; every other statement of the source is a step here.
\<close>

definition getRouteHandler :: "deps \<Rightarrow> recorder \<Rightarrow> GinContext \<Rightarrow> hstate" where
  "getRouteHandler d r c =
     (let s = emit (StatsIncr ''bricksllm.proxy.get_route_handeler.requests'')
                \<lparr>Keys = CtxKeys c, Effects = []\<rparr> in
      case Request c of
        None \<Rightarrow> JSON http_StatusInternalServerError ''[BricksLLM] context is empty'' s
      | Some req \<Rightarrow>
          (case Keys s ''key'' of
             Some (VKey kc) \<Rightarrow>
               (case Keys s ''route_config'' of
                  Some (VRoute rc) \<Rightarrow> lookupCache d r req kc rc s
                | _ \<Rightarrow>
                    JSON http_StatusNotFound ''[BricksLLM] route config not found''
                      (emit (StatsIncr ''bricksllm.proxy.get_route_handeler.route_config_not_found'') s))
           | _ \<Rightarrow>
               JSON http_StatusUnauthorized ''[BricksLLM] api key is not registered''
                 (emit (StatsIncr ''bricksllm.proxy.get_route_handeler.api_key_not_registered'') s)))"

text \<open>What the client receives: the response-writing calls of a run, and the header calls.\<close>

fun is_response :: "effect \<Rightarrow> bool" where
  "is_response (RespJSON code message) = True"
| "is_response (RespData code contentType bs) = True"
| "is_response ev = False"

definition responses :: "hstate \<Rightarrow> effect list" where
  "responses s = filter is_response (Effects s)"

fun is_header :: "effect \<Rightarrow> bool" where
  "is_header (RespHeader name value) = True"
| "is_header ev = False"

fun is_store :: "effect \<Rightarrow> bool" where
  "is_store (CacheStoreBytes k v ttl) = True"
| "is_store ev = False"

fun is_record_spend :: "effect \<Rightarrow> bool" where
  "is_record_spend (RecorderRecordKeySpend k m u) = True"
| "is_record_spend ev = False"

text \<open>The name/value pairs of an upstream header, in the order the loops visit them.\<close>

definition header_pairs :: "(string \<times> string list) list \<Rightarrow> effect list" where
  "header_pairs hs = concat (map (\<lambda>(name, values). map (RespHeader name) values) hs)"

subsection \<open>What reaches the client\<close>

text \<open>
  The response writer is gin's, not this repository's. \<open>c.Header(key, value)\<close> is
  \<open>Header().Set(key, value)\<close>, and \<open>Header().Del(key)\<close> when the value is empty: a call
  replaces what the name held. Header names are canonical, as \<open>net/http\<close> delivers them.
\<close>

definition gin_Header :: "string \<Rightarrow> string \<Rightarrow> (string \<rightharpoonup> string list) \<Rightarrow> (string \<rightharpoonup> string list)" where
  "gin_Header key value h = (if value = [] then h(key := None) else h(key \<mapsto> [value]))"

text \<open>\<open>c.Data\<close> writes its content type only when the header holds none.\<close>

definition gin_WriteContentType :: "string \<Rightarrow> (string \<rightharpoonup> string list) \<Rightarrow> (string \<rightharpoonup> string list)" where
  "gin_WriteContentType contentType h =
     (case h ''Content-Type'' of
        None \<Rightarrow> h(''Content-Type'' \<mapsto> [contentType])
      | Some [] \<Rightarrow> h(''Content-Type'' \<mapsto> [contentType])
      | Some (v # vs) \<Rightarrow> h)"

datatype client
  = NothingWritten
  | JSONWritten int string
  | DataWritten int "string \<rightharpoonup> string list" bytes

text \<open>
  What the client is sent by a run, from the header \<open>h\<close> the writer holds when the handler
  starts: the header calls up to the first write take effect, the first write sends status,
  header and body, and nothing after it counts. What the \<open>JSON\<close> helper renders is not in
  the sources, so its answer is kept as the status and message it was given.
\<close>

fun client_of :: "(string \<rightharpoonup> string list) \<Rightarrow> effect list \<Rightarrow> client" where
  "client_of h [] = NothingWritten"
| "client_of h (RespHeader name value # es) = client_of (gin_Header name value h) es"
| "client_of h (RespJSON code message # es) = JSONWritten code message"
| "client_of h (RespData code contentType bs # es) = DataWritten code (gin_WriteContentType contentType h) bs"
| "client_of h (ev # es) = client_of h es"

fun sent_header :: "client \<Rightarrow> string \<Rightarrow> string list option" where
  "sent_header (DataWritten code h bs) name = h name"
| "sent_header cl name = None"

subsection \<open>Runs that reach the route steps\<close>

text \<open>\<open>c.GetString\<close> on the context as the handler receives it.\<close>

definition ctx_string :: "GinContext \<Rightarrow> string \<Rightarrow> string" where
  "ctx_string c k = (case CtxKeys c k of Some (VString v) \<Rightarrow> v | _ \<Rightarrow> [])"

text \<open>The condition of lines 63 and 65 under which the handler answers from the cache.\<close>

definition cache_hit :: "deps \<Rightarrow> string \<Rightarrow> bool" where
  "cache_hit d cacheKey =
     (cacheKey \<noteq> [] \<and> (case GetBytes d cacheKey of Inr bs \<Rightarrow> bs \<noteq> [] | Inl err \<Rightarrow> False))"

text \<open>The \<open>route.Request\<close> built at lines 90 to 95.\<close>

definition route_request :: "ResponseKey \<Rightarrow> HttpRequest \<Rightarrow> Setting list \<Rightarrow> RouteRequest" where
  "route_request kc req settings = \<lparr>Settings = settingsMap_of settings, Key = kc, Forwarded = req\<rparr>"

text \<open>
  A run calls \<open>RunSteps\<close> exactly when the request is present, the three context values
  have their types, and the cache did not answer.
\<close>

definition reaches_RunSteps ::
  "deps \<Rightarrow> GinContext \<Rightarrow> HttpRequest \<Rightarrow> ResponseKey \<Rightarrow> Route \<Rightarrow> Setting list \<Rightarrow> bool" where
  "reaches_RunSteps d c req kc rc settings =
     (Request c = Some req \<and> CtxKeys c ''key'' = Some (VKey kc)
      \<and> CtxKeys c ''route_config'' = Some (VRoute rc)
      \<and> CtxKeys c ''settings'' = Some (VSettings settings)
      \<and> \<not> cache_hit d (ctx_string c ''cache_key''))"

text \<open>The state of such a run at the moment \<open>RunSteps\<close> returns.\<close>

definition before_RunSteps :: "GinContext \<Rightarrow> RouteRequest \<Rightarrow> hstate" where
  "before_RunSteps c rq =
     \<lparr>Keys = CtxKeys c,
      Effects = StatsIncr ''bricksllm.proxy.get_route_handeler.requests''
                # (if ctx_string c ''cache_key'' \<noteq> [] then [CacheGetBytes (ctx_string c ''cache_key'')] else [])
                @ [RouteRunSteps rq]\<rparr>"

text \<open>
  The decoders of \<open>d\<close> with the completion token count of every decoded embeddings
  usage block overwritten by \<open>k\<close>.
\<close>

definition with_completion_tokens :: "int \<Rightarrow> deps \<Rightarrow> deps" where
  "with_completion_tokens k d =
     d\<lparr>UnmarshalEmbeddingBase64 := (\<lambda>bs. map_sum id (\<lambda>u. u\<lparr>CompletionTokens := k\<rparr>) (UnmarshalEmbeddingBase64 d bs)),
       UnmarshalEmbedding := (\<lambda>bs. map_sum id (\<lambda>u. u\<lparr>CompletionTokens := k\<rparr>) (UnmarshalEmbedding d bs))\<rparr>"

text \<open>
  The conversion the specification words as \<open>cost_micro_usd = round(cost_usd * 1_000_000)\<close>.
  It has no counterpart in \<open>parseResult\<close>, whose only such lines are commented out.
\<close>

definition spec_cost_micro_usd :: "real \<Rightarrow> int" where
  "spec_cost_micro_usd cost_usd = round (cost_usd * 1000000)"

section \<open>Shutdown in main (cmd/bricksllm/main.go, lines 242 to 271)\<close>

datatype server = AdminServer | ProxyServer

text \<open>The four in-memory stores, named as the variables of \<open>main\<close> that hold them.\<close>

datatype memdb = MemStore | PsMemStore | CpMemStore | RMemStore

datatype main_call
  = EventConsumerStop
  | MemDbStop memdb
  | LogInfof string
  | ServerShutdown server int
  | LogDebugf string go_error
  | CtxDoneWait
  | LogInfo string
  | MainReturn

text \<open>
  The statements of \<open>main\<close> after \<open><-quit\<close>, in program order. The result of each
  \<open>Shutdown\<close> only decides whether a debug line is logged. \<open>CtxDoneWait\<close> is the
  \<open>select\<close> on the \<open>Done\<close> channel of the second five-second context.
\<close>

definition shutdown_calls :: "(server \<Rightarrow> go_error option) \<Rightarrow> main_call list" where
  "shutdown_calls shutdown_err =
     [EventConsumerStop,
      MemDbStop MemStore, MemDbStop PsMemStore, MemDbStop CpMemStore, MemDbStop RMemStore,
      LogInfof ''shutting down server...'',
      ServerShutdown AdminServer 5]
     @ (case shutdown_err AdminServer of
          Some err \<Rightarrow> [LogDebugf ''admin server shutdown: %v'' err] | None \<Rightarrow> [])
     @ [ServerShutdown ProxyServer 5]
     @ (case shutdown_err ProxyServer of
          Some err \<Rightarrow> [LogDebugf ''proxy server shutdown: %v'' err] | None \<Rightarrow> [])
     @ [CtxDoneWait, LogInfo ''timeout of 5 seconds'', LogInfo ''server exited'', MainReturn]"

record process =
  consumersRunning :: bool
  refreshing :: "memdb list"
  accepting :: "server list"
  exited :: bool

text \<open>
  Modelled from the spec: \<open>eventConsumer.Stop\<close>, the stores' \<open>Stop\<close> and the servers'
  \<open>Shutdown\<close> are defined in packages that are not part of the sources at hand. The
  specification says that \<open>Stop()\<close> of the consumers closes the topic and exits, that
  \<open>Stop()\<close> of a replica halts its refresher, and that closing a server stops its
  listener from accepting. Logging and waiting change nothing.
\<close>

fun perform :: "main_call \<Rightarrow> process \<Rightarrow> process" where
  "perform EventConsumerStop p = p\<lparr>consumersRunning := False\<rparr>"
| "perform (MemDbStop m) p = p\<lparr>refreshing := removeAll m (refreshing p)\<rparr>"
| "perform (ServerShutdown sv seconds) p = p\<lparr>accepting := removeAll sv (accepting p)\<rparr>"
| "perform MainReturn p = p\<lparr>exited := True\<rparr>"
| "perform (LogInfof m) p = p"
| "perform (LogDebugf m e) p = p"
| "perform CtxDoneWait p = p"
| "perform (LogInfo m) p = p"

text \<open>The process after each call of a sequence.\<close>

fun run_calls :: "main_call list \<Rightarrow> process \<Rightarrow> process list" where
  "run_calls [] p = []"
| "run_calls (a # as) p = perform a p # run_calls as (perform a p)"

text \<open>
  The process when the signal arrives: lines 103 to 240 have started the four
  refreshers (\<open>Listen\<close>), both servers (\<open>Run\<close>) and the event consumers.
\<close>

definition process_at_signal :: process where
  "process_at_signal =
     \<lparr>consumersRunning = True, refreshing = [MemStore, PsMemStore, CpMemStore, RMemStore],
      accepting = [AdminServer, ProxyServer], exited = False\<rparr>"

fun is_log :: "main_call \<Rightarrow> bool" where
  "is_log (LogInfof m) = True"
| "is_log (LogDebugf m e) = True"
| "is_log (LogInfo m) = True"
| "is_log a = False"

text \<open>
  The order the specification words: the listeners stop accepting before the consumers
  stop, so no state of the shutdown has stopped consumers and an accepting listener.
\<close>

definition spec_listeners_closed_first :: "process list \<Rightarrow> bool" where
  "spec_listeners_closed_first ps = list_all (\<lambda>p. consumersRunning p \<or> accepting p = []) ps"

section \<open>Concrete collaborators and requests\<close>

text \<open>
  One set of collaborators to run the handler on: a cache that holds one key and whose
  store fails, a duration parser that knows \<open>60s\<close>, decoders that accept one body, and
  estimators with fixed prices.
\<close>

definition demo_usage :: Usage where
  "demo_usage = \<lparr>PromptTokens = 2, CompletionTokens = 1, TotalTokens = 3\<rparr>"

definition demo_deps :: deps where
  "demo_deps =
     \<lparr>GetBytes = (\<lambda>k. if k = ''hit'' then Inr ''cached-body'' else Inl (ErrorString ''redis: nil'')),
      StoreBytes = (\<lambda>k v ttl. Some (ErrorString ''redis: connection refused'')),
      ParseDuration = (\<lambda>t. if t = ''60s'' then Inr 60000000000
                           else Inl (ErrorString ''time: invalid duration'')),
      RunSteps = (\<lambda>rc rq. Inr \<lparr>Model = ''gpt-4'', Provider = ''openai'',
                   Response = \<lparr>StatusCode = 200,
                               Header = [(''X-Request-Id'', [''abc'']), (''Set-Cookie'', [''a=1'', ''b=2''])],
                               ReadAllBody = Inr ''upstream-body''\<rparr>\<rparr>),
      UnmarshalEmbeddingBase64 = (\<lambda>bs. Inr demo_usage),
      UnmarshalEmbedding = (\<lambda>bs. Inr demo_usage),
      UnmarshalChatCompletion = (\<lambda>bs. if bs = ''upstream-body''
                                   then Inr \<lparr>ChatModel = ''gpt-4'', ChatUsage = demo_usage\<rparr>
                                   else Inl (ErrorString ''unexpected end of JSON input'')),
      UnmarshalErrorResponse = (\<lambda>bs. None),
      aoe_EstimateEmbeddingsInputCost = (\<lambda>m n. (1/4, None)),
      aoe_EstimateTotalCost = (\<lambda>m p c. (1/4, None)),
      e_EstimateEmbeddingsInputCost = (\<lambda>m n. (1/8, None)),
      e_EstimateTotalCost = (\<lambda>m p c. (1/8, None))\<rparr>"

definition demo_recorder :: recorder where
  "demo_recorder = \<lparr>RecordKeySpend = (\<lambda>k m u. None)\<rparr>"

definition demo_key :: ResponseKey where
  "demo_key = \<lparr>KeyId = ''key-1'', CostLimitInUsdUnit = ''d''\<rparr>"

definition demo_state :: hstate where
  "demo_state = \<lparr>Keys = Map.empty, Effects = []\<rparr>"

definition demo_request :: HttpRequest where
  "demo_request = \<lparr>ReqPath = ''/api/routes/chat'', ReqBody = ''request-body''\<rparr>"

definition demo_route :: "string \<Rightarrow> Route" where
  "demo_route ttl = \<lparr>RouteCacheConfig = Some \<lparr>Ttl = ttl\<rparr>, ShouldRunEmbeddings = False\<rparr>"

definition demo_settings :: "Setting list" where
  "demo_settings = [\<lparr>Id = ''setting-1''\<rparr>]"

definition demo_context :: "string \<Rightarrow> string \<Rightarrow> GinContext" where
  "demo_context cacheKey ttl =
     \<lparr>Request = Some demo_request, FullPath = ''/api/routes/chat'',
      CtxKeys = [''key'' \<mapsto> VKey demo_key, ''route_config'' \<mapsto> VRoute (demo_route ttl),
                 ''settings'' \<mapsto> VSettings demo_settings, ''cache_key'' \<mapsto> VString cacheKey]\<rparr>"

definition demo_upstream :: "int \<Rightarrow> bytes \<Rightarrow> RunStepsResponse" where
  "demo_upstream code body =
     \<lparr>Model = ''gpt-4'', Provider = ''openai'',
      Response = \<lparr>StatusCode = code,
                  Header = [(''Retry-After'', [''1'']), (''Set-Cookie'', [''a=1'', ''b=2''])],
                  ReadAllBody = Inr body\<rparr>\<rparr>"

definition demo_run :: "go_error + RunStepsResponse \<Rightarrow> deps" where
  "demo_run out = demo_deps\<lparr>RunSteps := (\<lambda>rc rq. out)\<rparr>"

text \<open>An upstream 429 whose body cannot be read.\<close>

definition demo_unreadable :: RunStepsResponse where
  "demo_unreadable =
     \<lparr>Model = ''gpt-4'', Provider = ''openai'',
      Response = \<lparr>StatusCode = 429, Header = [(''Retry-After'', [''1''])],
                  ReadAllBody = Inl (ErrorString ''unexpected EOF'')\<rparr>\<rparr>"

text \<open>
  Collaborators for an embeddings route: a base64 response whose usage block holds three
  different counts, and an estimator whose result depends on the token count it is given.
\<close>

definition demo_embeddings :: deps where
  "demo_embeddings =
     demo_deps
       \<lparr>UnmarshalEmbeddingBase64 :=
          (\<lambda>bs. Inr \<lparr>PromptTokens = 4, CompletionTokens = 9, TotalTokens = 5\<rparr>),
        e_EstimateEmbeddingsInputCost := (\<lambda>m n. (real_of_int n / 8, None))\<rparr>"

definition demo_base64_state :: hstate where
  "demo_base64_state = \<lparr>Keys = [''encoding_format'' \<mapsto> VString ''base64''], Effects = []\<rparr>"

section \<open>What parseResult leaves in the request context\<close>

lemmas parseResult_unfold = parseResult_def parseResult_locals_def c_Set_def c_GetString_def

text \<open>
  C3. Response parsing never records spend: whatever the route kind, the provider and the
  outcome, a call of \<open>parseResult\<close> adds no call of the recorder's \<open>RecordKeySpend\<close> to
  what the handler has done, and its result is the same for every recorder it is given.
\<close>

theorem parseResult_records_no_spend:
  "filter is_record_spend (Effects (snd (parseResult d r kc runEmbeddings bs model provider s)))
     = filter is_record_spend (Effects s)
   \<and> parseResult d r kc runEmbeddings bs model provider s
     = parseResult d r' kc runEmbeddings bs model provider s"
  by (simp add: parseResult_unfold split: prod.splits sum.splits option.splits)

text \<open>
  C9. Cost is estimated only for the providers \<open>azure\<close> and \<open>openai\<close>: for any other
  provider the cost that \<open>parseResult\<close> attaches under \<open>costInUsd\<close> is exactly 0, for
  embeddings and chat completions alike and whatever token counts the response carries.
\<close>

theorem parseResult_other_provider_cost_zero:
  assumes "provider \<noteq> ''azure''" and "provider \<noteq> ''openai''"
  shows "Keys (snd (parseResult d r kc runEmbeddings bs model provider s)) ''costInUsd''
           = Some (VFloat 0)"
  using assms
  by (simp add: parseResult_unfold split: prod.splits sum.splits option.splits)

text \<open>
  The claim at work: provider \<open>anthropic\<close>, a chat completion whose usage block counts
  two prompt tokens; the prompt count is attached and the cost is 0.
\<close>

theorem parseResult_other_provider_cost_zero_witness:
  "''anthropic'' \<noteq> ''azure'' \<and> ''anthropic'' \<noteq> ''openai''
   \<and> UnmarshalChatCompletion demo_deps ''upstream-body''
       = Inr \<lparr>ChatModel = ''gpt-4'', ChatUsage = demo_usage\<rparr>
   \<and> Keys (snd (parseResult demo_deps demo_recorder demo_key False ''upstream-body'' ''claude-2''
        ''anthropic'' demo_state)) ''promptTokenCount'' = Some (VInt 2)
   \<and> Keys (snd (parseResult demo_deps demo_recorder demo_key False ''upstream-body'' ''claude-2''
        ''anthropic'' demo_state)) ''costInUsd'' = Some (VFloat 0)"
  using parseResult_other_provider_cost_zero
          [of "''anthropic''" demo_deps demo_recorder demo_key False "''upstream-body''" "''claude-2''" demo_state]
  by (simp add: parseResult_unfold demo_deps_def demo_usage_def demo_state_def)

lemma parseResult_locals_completion_irrelevant:
  "parseResult_locals (with_completion_tokens k d) format True bs model provider
     = parseResult_locals d format True bs model provider"
proof (cases "format = ''base64''")
  case True
  then show ?thesis
    by (cases "UnmarshalEmbeddingBase64 d bs")
       (simp_all add: parseResult_locals_def with_completion_tokens_def)
next
  case False
  then show ?thesis
    by (cases "UnmarshalEmbedding d bs")
       (simp_all add: parseResult_locals_def with_completion_tokens_def)
qed

lemma parseResult_locals_embeddings_completion:
  "parseResult_locals d format True bs model provider = (err, cost, p, c) \<Longrightarrow> c = 0"
  by (auto simp: parseResult_locals_def split: sum.splits prod.splits option.splits if_splits)

text \<open>
  C10. On an embeddings route the completion token count attached to the request context is
  0, whatever the response holds and whatever the encoding format, and the completion
  count of the usage block is not read: overwriting it in every decoded response changes
  nothing of what \<open>parseResult\<close> returns. What is read is the prompt count and the total
  count of the usage block that the encoding format selects: the prompt count is attached
  under \<open>promptTokenCount\<close>, and the total count is what the provider's estimator is
  given, whose estimate is attached under \<open>costInUsd\<close>. When the response does not decode,
  the error is returned and both are 0.
\<close>
theorem parseResult_embeddings_completion_zero:
  "Keys (snd (parseResult d r kc True bs model provider s)) ''completionTokenCount'' = Some (VInt 0)
   \<and> parseResult (with_completion_tokens k d) r kc True bs model provider s
       = parseResult d r kc True bs model provider s
   \<and> (case (if c_GetString s ''encoding_format'' = ''base64''
             then UnmarshalEmbeddingBase64 d bs else UnmarshalEmbedding d bs) of
         Inl err \<Rightarrow>
           fst (parseResult d r kc True bs model provider s) = Some err
           \<and> Keys (snd (parseResult d r kc True bs model provider s)) ''promptTokenCount''
               = Some (VInt 0)
           \<and> Keys (snd (parseResult d r kc True bs model provider s)) ''costInUsd''
               = Some (VFloat 0)
       | Inr u \<Rightarrow>
           Keys (snd (parseResult d r kc True bs model provider s)) ''promptTokenCount''
             = Some (VInt (PromptTokens u))
           \<and> Keys (snd (parseResult d r kc True bs model provider s)) ''costInUsd''
               = Some (VFloat
                   (if provider = ''azure'' then
                      (case aoe_EstimateEmbeddingsInputCost d model (TotalTokens u) of
                         (ecost, None) \<Rightarrow> ecost | (ecost, Some err) \<Rightarrow> 0)
                    else if provider = ''openai'' then
                      (case e_EstimateEmbeddingsInputCost d model (TotalTokens u) of
                         (ecost, None) \<Rightarrow> ecost | (ecost, Some err) \<Rightarrow> 0)
                    else 0)))"
proof (intro conjI)
  obtain err cost p c where
    l: "parseResult_locals d (c_GetString s ''encoding_format'') True bs model provider = (err, cost, p, c)"
    by (cases "parseResult_locals d (c_GetString s ''encoding_format'') True bs model provider") auto
  from parseResult_locals_embeddings_completion [OF l] have "c = 0" .
  with l show "Keys (snd (parseResult d r kc True bs model provider s)) ''completionTokenCount''
                 = Some (VInt 0)"
    by (simp add: parseResult_def c_Set_def)
next
  show "parseResult (with_completion_tokens k d) r kc True bs model provider s
          = parseResult d r kc True bs model provider s"
    by (simp add: parseResult_def parseResult_locals_completion_irrelevant)
next
  show "case (if c_GetString s ''encoding_format'' = ''base64''
             then UnmarshalEmbeddingBase64 d bs else UnmarshalEmbedding d bs) of
         Inl err \<Rightarrow>
           fst (parseResult d r kc True bs model provider s) = Some err
           \<and> Keys (snd (parseResult d r kc True bs model provider s)) ''promptTokenCount''
               = Some (VInt 0)
           \<and> Keys (snd (parseResult d r kc True bs model provider s)) ''costInUsd''
               = Some (VFloat 0)
       | Inr u \<Rightarrow>
           Keys (snd (parseResult d r kc True bs model provider s)) ''promptTokenCount''
             = Some (VInt (PromptTokens u))
           \<and> Keys (snd (parseResult d r kc True bs model provider s)) ''costInUsd''
               = Some (VFloat
                   (if provider = ''azure'' then
                      (case aoe_EstimateEmbeddingsInputCost d model (TotalTokens u) of
                         (ecost, None) \<Rightarrow> ecost | (ecost, Some err) \<Rightarrow> 0)
                    else if provider = ''openai'' then
                      (case e_EstimateEmbeddingsInputCost d model (TotalTokens u) of
                         (ecost, None) \<Rightarrow> ecost | (ecost, Some err) \<Rightarrow> 0)
                    else 0))"
    by (cases "if c_GetString s ''encoding_format'' = ''base64''
               then UnmarshalEmbeddingBase64 d bs else UnmarshalEmbedding d bs")
       (simp_all add: parseResult_def parseResult_locals_def c_Set_def
          split: prod.splits option.splits)
qed

text \<open>
  The claim at work: a base64 response with prompt count 4, completion count 9 and total
  count 5 on provider \<open>openai\<close>; the context receives 0, 4 and the estimate for 5 tokens.
\<close>
theorem parseResult_embeddings_completion_zero_witness:
  "c_GetString demo_base64_state ''encoding_format'' = ''base64''
   \<and> UnmarshalEmbeddingBase64 demo_embeddings ''embedding-body''
       = Inr \<lparr>PromptTokens = 4, CompletionTokens = 9, TotalTokens = 5\<rparr>
   \<and> e_EstimateEmbeddingsInputCost demo_embeddings ''text-embedding-ada-002'' 5 = (5 / 8, None)
   \<and> Keys (snd (parseResult demo_embeddings demo_recorder demo_key True ''embedding-body''
        ''text-embedding-ada-002'' ''openai'' demo_base64_state)) ''completionTokenCount''
       = Some (VInt 0)
   \<and> Keys (snd (parseResult demo_embeddings demo_recorder demo_key True ''embedding-body''
        ''text-embedding-ada-002'' ''openai'' demo_base64_state)) ''promptTokenCount''
       = Some (VInt 4)
   \<and> Keys (snd (parseResult demo_embeddings demo_recorder demo_key True ''embedding-body''
        ''text-embedding-ada-002'' ''openai'' demo_base64_state)) ''costInUsd''
       = Some (VFloat (5 / 8))"
proof -
  have f: "c_GetString demo_base64_state ''encoding_format'' = ''base64''"
    by (simp add: c_GetString_def demo_base64_state_def)
  have u: "UnmarshalEmbeddingBase64 demo_embeddings ''embedding-body''
             = Inr \<lparr>PromptTokens = 4, CompletionTokens = 9, TotalTokens = 5\<rparr>"
    by (simp add: demo_embeddings_def)
  have e: "e_EstimateEmbeddingsInputCost demo_embeddings ''text-embedding-ada-002'' 5 = (5 / 8, None)"
    by (simp add: demo_embeddings_def)
  from parseResult_embeddings_completion_zero
         [of demo_embeddings demo_recorder demo_key "''embedding-body''"
             "''text-embedding-ada-002''" "''openai''" demo_base64_state 0]
  show ?thesis
    unfolding f u using f u e by simp
qed

section \<open>What the handler does, stage by stage\<close>

lemma Effects_emit [simp]: "Effects (emit ev s) = Effects s @ [ev]"
  by (simp add: emit_def)

lemma Keys_emit [simp]: "Keys (emit ev s) = Keys s"
  by (simp add: emit_def)

lemma Effects_c_Set [simp]: "Effects (c_Set k v s) = Effects s"
  by (simp add: c_Set_def)

lemma Keys_c_Set [simp]: "Keys (c_Set k v s) = (Keys s)(k \<mapsto> v)"
  by (simp add: c_Set_def)

lemma Effects_JSON [simp]: "Effects (JSON code m s) = Effects s @ [RespJSON code m]"
  by (simp add: JSON_def)

lemma Effects_c_Data [simp]: "Effects (c_Data code ct bs s) = Effects s @ [RespData code ct bs]"
  by (simp add: c_Data_def)

lemma Effects_logError [simp]: "Effects (logError m err s) = Effects s @ [LogError m err]"
  by (simp add: logError_def)

lemma Keys_JSON [simp]: "Keys (JSON code m s) = Keys s"
  by (simp add: JSON_def)

lemma Keys_c_Data [simp]: "Keys (c_Data code ct bs s) = Keys s"
  by (simp add: c_Data_def)

lemma Keys_logError [simp]: "Keys (logError m err s) = Keys s"
  by (simp add: logError_def)

lemma Effects_values:
  "Effects (fold (\<lambda>value s2. emit (RespHeader name value) s2) vs s)
     = Effects s @ map (RespHeader name) vs"
  by (induction vs arbitrary: s) simp_all

lemma Keys_values:
  "Keys (fold (\<lambda>value s2. emit (RespHeader name value) s2) vs s) = Keys s"
  by (induction vs arbitrary: s) simp_all

lemma Effects_copyHeaders: "Effects (copyHeaders hs s) = Effects s @ header_pairs hs"
  unfolding copyHeaders_def header_pairs_def
  by (induction hs arbitrary: s) (simp_all add: Effects_values split: prod.splits)

lemma Keys_copyHeaders: "Keys (copyHeaders hs s) = Keys s"
  unfolding copyHeaders_def
  by (induction hs arbitrary: s) (simp_all add: Keys_values split: prod.splits)

lemma filter_header_pairs_none:
  "(\<And>name value. \<not> P (RespHeader name value)) \<Longrightarrow> filter P (header_pairs hs) = []"
  unfolding header_pairs_def by (induction hs) (auto simp: filter_empty_conv)

lemma filter_header_pairs_all: "filter is_header (header_pairs hs) = header_pairs hs"
  unfolding header_pairs_def by (induction hs) auto

lemma Effects_parseResult:
  "Effects (snd (parseResult d r kc emb bs model provider s)) = Effects s"
  by (simp add: parseResult_def split: prod.splits)

lemma lookupCache_miss:
  assumes "\<not> cache_hit d (c_GetString s ''cache_key'')"
  shows "lookupCache d r req kc rc s =
           runRoute d r req kc rc (c_GetString s ''cache_key'')
             (if c_GetString s ''cache_key'' \<noteq> []
              then emit (CacheGetBytes (c_GetString s ''cache_key'')) s else s)"
  using assms
  by (cases "GetBytes d (c_GetString s ''cache_key'')")
     (auto simp: lookupCache_def cache_hit_def Let_def)

lemma runRoute_settings:
  assumes "Keys s ''settings'' = Some (VSettings settings)"
  shows "runRoute d r req kc rc cacheKey s =
           (case RunSteps d rc (route_request kc req settings) of
              Inl err \<Rightarrow>
                (if errors_Is_DeadlineExceeded err then
                   JSON http_StatusRequestTimeout ''[BricksLLM] request timeout''
                     (logError ''running steps time out'' err
                       (emit (StatsIncr ''bricksllm.proxy.get_route_handeler.timeout'')
                         (emit (RouteRunSteps (route_request kc req settings)) s)))
                 else
                   JSON http_StatusInternalServerError ''[BricksLLM] cannot run route steps''
                     (logError ''error when running steps'' err
                       (emit (StatsIncr ''bricksllm.proxy.get_route_handeler.run_steps_error'')
                         (emit (RouteRunSteps (route_request kc req settings)) s))))
            | Inr runRes \<Rightarrow>
                afterRunSteps d r kc rc cacheKey runRes
                  (emit (RouteRunSteps (route_request kc req settings)) s))"
  unfolding route_request_def using assms by (simp add: runRoute_def Let_def)

text \<open>
  A run that reaches the route steps is the stage after \<open>RunSteps\<close>, or one of its two
  error answers, applied to the state in which \<open>RunSteps\<close> was called.
\<close>

lemma getRouteHandler_reaches:
  assumes "reaches_RunSteps d c req kc rc settings"
  shows "getRouteHandler d r c =
           (case RunSteps d rc (route_request kc req settings) of
              Inl err \<Rightarrow>
                (if errors_Is_DeadlineExceeded err then
                   JSON http_StatusRequestTimeout ''[BricksLLM] request timeout''
                     (logError ''running steps time out'' err
                       (emit (StatsIncr ''bricksllm.proxy.get_route_handeler.timeout'')
                         (before_RunSteps c (route_request kc req settings))))
                 else
                   JSON http_StatusInternalServerError ''[BricksLLM] cannot run route steps''
                     (logError ''error when running steps'' err
                       (emit (StatsIncr ''bricksllm.proxy.get_route_handeler.run_steps_error'')
                         (before_RunSteps c (route_request kc req settings)))))
            | Inr runRes \<Rightarrow>
                afterRunSteps d r kc rc (ctx_string c ''cache_key'') runRes
                  (before_RunSteps c (route_request kc req settings)))"
proof -
  define s0 where
    "s0 = emit (StatsIncr ''bricksllm.proxy.get_route_handeler.requests'')
            \<lparr>Keys = CtxKeys c, Effects = []\<rparr>"
  have keys: "Keys s0 = CtxKeys c"
    by (simp add: s0_def)
  have str: "c_GetString s0 ''cache_key'' = ctx_string c ''cache_key''"
    by (simp add: c_GetString_def ctx_string_def keys)
  from assms have req: "Request c = Some req"
    and k: "Keys s0 ''key'' = Some (VKey kc)"
    and rt: "Keys s0 ''route_config'' = Some (VRoute rc)"
    and st: "Keys s0 ''settings'' = Some (VSettings settings)"
    and miss: "\<not> cache_hit d (c_GetString s0 ''cache_key'')"
    by (simp_all add: reaches_RunSteps_def keys str)
  have "getRouteHandler d r c = lookupCache d r req kc rc s0"
    using req k rt by (simp add: getRouteHandler_def Let_def s0_def [symmetric])
  also have "\<dots> = runRoute d r req kc rc (ctx_string c ''cache_key'')
                    (if ctx_string c ''cache_key'' \<noteq> []
                     then emit (CacheGetBytes (ctx_string c ''cache_key'')) s0 else s0)"
    using lookupCache_miss [OF miss] by (simp add: str)
  finally have run: "getRouteHandler d r c =
      runRoute d r req kc rc (ctx_string c ''cache_key'')
        (if ctx_string c ''cache_key'' \<noteq> []
         then emit (CacheGetBytes (ctx_string c ''cache_key'')) s0 else s0)" .
  have st': "Keys (if ctx_string c ''cache_key'' \<noteq> []
                   then emit (CacheGetBytes (ctx_string c ''cache_key'')) s0 else s0) ''settings''
               = Some (VSettings settings)"
    using st by simp
  have b: "emit (RouteRunSteps rq)
             (if ctx_string c ''cache_key'' \<noteq> []
              then emit (CacheGetBytes (ctx_string c ''cache_key'')) s0 else s0)
           = before_RunSteps c rq" for rq
    by (simp add: before_RunSteps_def s0_def emit_def)
  show ?thesis
    unfolding run runRoute_settings [OF st'] b ..
qed

lemma filter_onStatusNotOK:
  assumes "\<And>n. \<not> P (StatsIncr n)" and "\<And>n. \<not> P (StatsTiming n)"
    and "\<And>m e. \<not> P (LogError m e)" and "\<not> P LogOpenAiError"
  shows "filter P (Effects (onStatusNotOK d bs s)) = filter P (Effects s)"
  using assms by (simp add: onStatusNotOK_def Let_def split: option.splits)

lemma Keys_onStatusNotOK: "Keys (onStatusNotOK d bs s) = Keys s"
  by (simp add: onStatusNotOK_def Let_def split: option.splits)

lemma Keys_storeResponse: "Keys (storeResponse d rc cacheKey bs s) = Keys s"
  by (simp add: storeResponse_def split: option.splits sum.splits)

lemma filter_storeResponse:
  assumes "\<And>m e. \<not> P (LogError m e)" and "\<And>k v t. \<not> P (CacheStoreBytes k v t)"
  shows "filter P (Effects (storeResponse d rc cacheKey bs s)) = filter P (Effects s)"
  using assms by (simp add: storeResponse_def split: option.splits sum.splits)

lemma stores_storeResponse:
  "filter is_store (Effects (storeResponse d rc cacheKey bs s)) =
     filter is_store (Effects s)
     @ (if cacheKey \<noteq> [] then
          (case RouteCacheConfig rc of
             None \<Rightarrow> []
           | Some cc \<Rightarrow>
               (case ParseDuration d (Ttl cc) of
                  Inl err \<Rightarrow> []
                | Inr parsed \<Rightarrow> [CacheStoreBytes cacheKey bs parsed]))
        else [])"
  by (simp add: storeResponse_def split: option.splits sum.splits)

text \<open>
  The 200 branch: what is stored, then at most one log line for the parse error.
\<close>

lemma onStatusOK_cases:
  obtains s3 where
    "onStatusOK d r kc rc cacheKey runRes bs s =
       (case fst (parseResult_locals d (c_GetString s ''encoding_format'') (ShouldRunEmbeddings rc)
                    bs (Model runRes) (Provider runRes)) of
          Some err \<Rightarrow> logError ''error when parsing run steps result'' err s3
        | None \<Rightarrow> s3)"
    and "Effects s3 = Effects (storeResponse d rc cacheKey bs
           (emit (StatsTiming ''bricksllm.proxy.get_route_handeler.success_latency'')
             (emit (StatsIncr ''bricksllm.proxy.get_route_handeler.success'') s)))"
    and "Keys s3 = Keys (snd (parseResult d r kc (ShouldRunEmbeddings rc) bs (Model runRes)
           (Provider runRes) s))"
proof -
  define s2 where "s2 = storeResponse d rc cacheKey bs
       (emit (StatsTiming ''bricksllm.proxy.get_route_handeler.success_latency'')
         (emit (StatsIncr ''bricksllm.proxy.get_route_handeler.success'') s))"
  have k: "Keys s2 = Keys s"
    by (simp add: s2_def Keys_storeResponse)
  have g: "c_GetString s2 k = c_GetString s k" for k
    by (simp add: c_GetString_def k)
  obtain err cost p c where
    l: "parseResult_locals d (c_GetString s ''encoding_format'') (ShouldRunEmbeddings rc) bs
          (Model runRes) (Provider runRes) = (err, cost, p, c)"
    by (cases "parseResult_locals d (c_GetString s ''encoding_format'') (ShouldRunEmbeddings rc) bs
          (Model runRes) (Provider runRes)") auto
  define s3 where
    "s3 = snd (parseResult d r kc (ShouldRunEmbeddings rc) bs (Model runRes) (Provider runRes) s2)"
  have p: "parseResult d r kc (ShouldRunEmbeddings rc) bs (Model runRes) (Provider runRes) s2
             = (err, s3)"
    by (simp add: s3_def parseResult_def g l)
  have 1: "onStatusOK d r kc rc cacheKey runRes bs s =
       (case fst (parseResult_locals d (c_GetString s ''encoding_format'') (ShouldRunEmbeddings rc)
                    bs (Model runRes) (Provider runRes)) of
          Some err \<Rightarrow> logError ''error when parsing run steps result'' err s3
        | None \<Rightarrow> s3)"
    by (cases err) (simp_all add: onStatusOK_def Let_def s2_def [symmetric] p l)
  have 2: "Effects s3 = Effects s2"
    by (simp add: s3_def Effects_parseResult)
  have 3: "Keys s3 = Keys (snd (parseResult d r kc (ShouldRunEmbeddings rc) bs (Model runRes)
           (Provider runRes) s))"
    by (simp add: s3_def parseResult_def g l k)
  from 1 2 3 show ?thesis
    unfolding s2_def by (rule that)
qed

lemma filter_onStatusOK:
  assumes "\<And>n. \<not> P (StatsIncr n)" and "\<And>n. \<not> P (StatsTiming n)"
    and "\<And>m e. \<not> P (LogError m e)" and "\<And>k v t. \<not> P (CacheStoreBytes k v t)"
  shows "filter P (Effects (onStatusOK d r kc rc cacheKey runRes bs s)) = filter P (Effects s)"
proof -
  obtain s3 where
    1: "onStatusOK d r kc rc cacheKey runRes bs s =
       (case fst (parseResult_locals d (c_GetString s ''encoding_format'') (ShouldRunEmbeddings rc)
                    bs (Model runRes) (Provider runRes)) of
          Some err \<Rightarrow> logError ''error when parsing run steps result'' err s3
        | None \<Rightarrow> s3)"
    and 2: "filter P (Effects s3) = filter P (Effects (storeResponse d rc cacheKey bs
           (emit (StatsTiming ''bricksllm.proxy.get_route_handeler.success_latency'')
             (emit (StatsIncr ''bricksllm.proxy.get_route_handeler.success'') s))))"
    by (rule onStatusOK_cases [of d r kc rc cacheKey runRes bs s]) simp
  have "filter P (Effects s3) = filter P (Effects s)"
    unfolding 2 using assms by (simp add: filter_storeResponse)
  then show ?thesis
    unfolding 1 using assms(3) by (simp split: option.splits)
qed

lemma stores_onStatusOK:
  "filter is_store (Effects (onStatusOK d r kc rc cacheKey runRes bs s)) =
     filter is_store (Effects s)
     @ (if cacheKey \<noteq> [] then
          (case RouteCacheConfig rc of
             None \<Rightarrow> []
           | Some cc \<Rightarrow>
               (case ParseDuration d (Ttl cc) of
                  Inl err \<Rightarrow> []
                | Inr parsed \<Rightarrow> [CacheStoreBytes cacheKey bs parsed]))
        else [])"
proof -
  obtain s3 where
    1: "onStatusOK d r kc rc cacheKey runRes bs s =
       (case fst (parseResult_locals d (c_GetString s ''encoding_format'') (ShouldRunEmbeddings rc)
                    bs (Model runRes) (Provider runRes)) of
          Some err \<Rightarrow> logError ''error when parsing run steps result'' err s3
        | None \<Rightarrow> s3)"
    and 2: "filter is_store (Effects s3) = filter is_store (Effects (storeResponse d rc cacheKey bs
           (emit (StatsTiming ''bricksllm.proxy.get_route_handeler.success_latency'')
             (emit (StatsIncr ''bricksllm.proxy.get_route_handeler.success'') s))))"
    by (rule onStatusOK_cases [of d r kc rc cacheKey runRes bs s]) simp
  have 3: "filter is_store (Effects (onStatusOK d r kc rc cacheKey runRes bs s))
             = filter is_store (Effects s3)"
    unfolding 1 by (simp split: option.splits)
  have 4: "filter is_store (Effects
             (emit (StatsTiming ''bricksllm.proxy.get_route_handeler.success_latency'')
               (emit (StatsIncr ''bricksllm.proxy.get_route_handeler.success'') s)))
           = filter is_store (Effects s)"
    by simp
  show ?thesis
    unfolding 3 2 stores_storeResponse 4 ..
qed

lemma parse_error_logged:
  assumes "fst (parseResult_locals d (c_GetString s ''encoding_format'') (ShouldRunEmbeddings rc)
                  bs (Model runRes) (Provider runRes)) = Some err"
  shows "LogError ''error when parsing run steps result'' err
           \<in> set (Effects (onStatusOK d r kc rc cacheKey runRes bs s))"
proof -
  obtain s3 where
    "onStatusOK d r kc rc cacheKey runRes bs s =
       (case fst (parseResult_locals d (c_GetString s ''encoding_format'') (ShouldRunEmbeddings rc)
                    bs (Model runRes) (Provider runRes)) of
          Some err \<Rightarrow> logError ''error when parsing run steps result'' err s3
        | None \<Rightarrow> s3)"
    by (rule onStatusOK_cases [of d r kc rc cacheKey runRes bs s])
  with assms show ?thesis by simp
qed

lemma Keys_onStatusOK:
  "Keys (onStatusOK d r kc rc cacheKey runRes bs s) =
     Keys (snd (parseResult d r kc (ShouldRunEmbeddings rc) bs (Model runRes) (Provider runRes) s))"
proof -
  obtain s3 where
    1: "onStatusOK d r kc rc cacheKey runRes bs s =
       (case fst (parseResult_locals d (c_GetString s ''encoding_format'') (ShouldRunEmbeddings rc)
                    bs (Model runRes) (Provider runRes)) of
          Some err \<Rightarrow> logError ''error when parsing run steps result'' err s3
        | None \<Rightarrow> s3)"
    and 2: "Keys s3 = Keys (snd (parseResult d r kc (ShouldRunEmbeddings rc) bs (Model runRes)
           (Provider runRes) s))"
    by (rule onStatusOK_cases [of d r kc rc cacheKey runRes bs s])
  show ?thesis
    unfolding 1 by (simp add: 2 split: option.splits)
qed

lemma afterRunSteps_read:
  assumes "ReadAllBody (Response runRes) = Inr bs"
  shows "afterRunSteps d r kc rc cacheKey runRes s =
           emit RunResCancel (emit BodyClose
             (c_Data (StatusCode (Response runRes)) ''application/json'' bs
               (copyHeaders (Header (Response runRes))
                 (if StatusCode (Response runRes) = 200
                  then onStatusOK d r kc rc cacheKey runRes bs
                         (emit (StatsTiming ''bricksllm.proxy.get_route_handeler.latency'')
                           (c_Set ''model'' (VString (Model runRes)) s))
                  else onStatusNotOK d bs
                         (emit (StatsTiming ''bricksllm.proxy.get_route_handeler.latency'')
                           (c_Set ''model'' (VString (Model runRes)) s))))))"
  using assms by (simp add: afterRunSteps_def Let_def http_StatusOK_def)

lemma responses_before_RunSteps: "filter is_response (Effects (before_RunSteps c rq)) = []"
  by (simp add: before_RunSteps_def)

lemma headers_before_RunSteps: "filter is_header (Effects (before_RunSteps c rq)) = []"
  by (simp add: before_RunSteps_def)

lemma stores_before_RunSteps: "filter is_store (Effects (before_RunSteps c rq)) = []"
  by (simp add: before_RunSteps_def)

lemma Keys_before_RunSteps: "Keys (before_RunSteps c rq) = CtxKeys c"
  by (simp add: before_RunSteps_def)

lemma filter_afterRunSteps:
  assumes body: "ReadAllBody (Response runRes) = Inr bs"
    and quiet: "\<And>n. \<not> P (StatsIncr n)" "\<And>n. \<not> P (StatsTiming n)"
      "\<And>m e. \<not> P (LogError m e)" "\<not> P LogOpenAiError"
      "\<And>k v t. \<not> P (CacheStoreBytes k v t)"
  shows "filter P (Effects (afterRunSteps d r kc rc cacheKey runRes s)) =
           filter P (Effects s)
           @ filter P (header_pairs (Header (Response runRes))
                       @ [RespData (StatusCode (Response runRes)) ''application/json'' bs,
                          BodyClose, RunResCancel])"
proof (cases "StatusCode (Response runRes) = 200")
  case True
  then show ?thesis
    unfolding afterRunSteps_read [OF body]
    using quiet by (simp add: Effects_copyHeaders filter_onStatusOK)
next
  case False
  then show ?thesis
    unfolding afterRunSteps_read [OF body]
    using quiet by (simp add: Effects_copyHeaders filter_onStatusNotOK)
qed

lemma responses_afterRunSteps:
  assumes "ReadAllBody (Response runRes) = Inr bs"
  shows "filter is_response (Effects (afterRunSteps d r kc rc cacheKey runRes s)) =
           filter is_response (Effects s)
           @ [RespData (StatusCode (Response runRes)) ''application/json'' bs]"
  by (simp add: filter_afterRunSteps [OF assms] filter_header_pairs_none)

lemma headers_afterRunSteps:
  assumes "ReadAllBody (Response runRes) = Inr bs"
  shows "filter is_header (Effects (afterRunSteps d r kc rc cacheKey runRes s)) =
           filter is_header (Effects s) @ header_pairs (Header (Response runRes))"
  by (simp add: filter_afterRunSteps [OF assms] filter_header_pairs_all)

lemma stores_afterRunSteps:
  assumes body: "ReadAllBody (Response runRes) = Inr bs"
  shows "filter is_store (Effects (afterRunSteps d r kc rc cacheKey runRes s)) =
           filter is_store (Effects s)
           @ (if StatusCode (Response runRes) = 200 \<and> cacheKey \<noteq> [] then
                (case RouteCacheConfig rc of
                   None \<Rightarrow> []
                 | Some cc \<Rightarrow>
                     (case ParseDuration d (Ttl cc) of
                        Inl err \<Rightarrow> []
                      | Inr parsed \<Rightarrow> [CacheStoreBytes cacheKey bs parsed]))
              else [])"
proof (cases "StatusCode (Response runRes) = 200")
  case True
  have "filter is_store (Effects (afterRunSteps d r kc rc cacheKey runRes s)) =
          filter is_store (Effects (onStatusOK d r kc rc cacheKey runRes bs
            (emit (StatsTiming ''bricksllm.proxy.get_route_handeler.latency'')
              (c_Set ''model'' (VString (Model runRes)) s))))"
    unfolding afterRunSteps_read [OF body]
    using True by (simp add: Effects_copyHeaders filter_header_pairs_none)
  also have "\<dots> = filter is_store (Effects s)
           @ (if cacheKey \<noteq> [] then
                (case RouteCacheConfig rc of
                   None \<Rightarrow> []
                 | Some cc \<Rightarrow>
                     (case ParseDuration d (Ttl cc) of
                        Inl err \<Rightarrow> []
                      | Inr parsed \<Rightarrow> [CacheStoreBytes cacheKey bs parsed]))
              else [])"
    unfolding stores_onStatusOK by simp
  finally show ?thesis
    using True by (cases "cacheKey = []") simp_all
next
  case False
  then show ?thesis
    unfolding afterRunSteps_read [OF body]
    by (simp add: Effects_copyHeaders filter_onStatusNotOK filter_header_pairs_none)
qed

lemma c_GetString_at_parse:
  "c_GetString (emit ev (c_Set ''model'' v (before_RunSteps c rq))) ''encoding_format''
     = ctx_string c ''encoding_format''"
  by (simp add: c_GetString_def ctx_string_def Keys_before_RunSteps)

lemma Keys_afterRunSteps:
  "Keys (afterRunSteps d r kc rc cacheKey runRes s) =
     (case ReadAllBody (Response runRes) of
        Inl err \<Rightarrow> (Keys s)(''model'' \<mapsto> VString (Model runRes))
      | Inr bs \<Rightarrow>
          if StatusCode (Response runRes) = 200
          then Keys (snd (parseResult d r kc (ShouldRunEmbeddings rc) bs (Model runRes)
                 (Provider runRes)
                 (emit (StatsTiming ''bricksllm.proxy.get_route_handeler.latency'')
                   (c_Set ''model'' (VString (Model runRes)) s))))
          else (Keys s)(''model'' \<mapsto> VString (Model runRes)))"
  by (cases "ReadAllBody (Response runRes)")
     (simp_all add: afterRunSteps_def Let_def http_StatusOK_def Keys_copyHeaders Keys_onStatusOK
        Keys_onStatusNotOK)

lemma afterRunSteps_unread:
  assumes "ReadAllBody (Response runRes) = Inl err"
  shows "Effects (afterRunSteps d r kc rc cacheKey runRes s) =
           Effects s
           @ [StatsTiming ''bricksllm.proxy.get_route_handeler.latency'',
              LogError ''error when reading route response body'' err,
              RespJSON 500 ''[BricksLLM] failed to read route response body'',
              BodyClose, RunResCancel]"
  using assms by (simp add: afterRunSteps_def Let_def http_StatusInternalServerError_def)

subsection \<open>From the calls to the client\<close>

lemma client_of_skip:
  "filter (\<lambda>ev. is_header ev \<or> is_response ev) es = [] \<Longrightarrow> client_of h (es @ rest) = client_of h rest"
proof (induction es arbitrary: h)
  case Nil
  then show ?case by simp
next
  case (Cons ev es)
  then show ?case by (cases ev) (simp_all split: if_splits)
qed

lemma client_of_values:
  "client_of h (map (RespHeader name) vs @ rest) = client_of (fold (gin_Header name) vs h) rest"
  by (induction vs arbitrary: h) simp_all

lemma client_of_header_pairs:
  "client_of h (header_pairs hs @ rest)
     = client_of (fold (\<lambda>(name, vs) h1. fold (gin_Header name) vs h1) hs h) rest"
  unfolding header_pairs_def
  by (induction hs arbitrary: h) (simp_all add: client_of_values split: prod.splits)

lemma fold_gin_Header_other:
  "name \<noteq> other \<Longrightarrow> fold (gin_Header name) vs h other = h other"
  by (induction vs arbitrary: h) (simp_all add: gin_Header_def)

lemma copied_header_other:
  "other \<notin> fst ` set hs \<Longrightarrow>
     fold (\<lambda>(name, vs) h1. fold (gin_Header name) vs h1) hs h other = h other"
  by (induction hs arbitrary: h) (auto simp: fold_gin_Header_other)

lemma copied_header_single:
  assumes "distinct (map fst hs)" and "(name, [v]) \<in> set hs" and "v \<noteq> []"
  shows "fold (\<lambda>(name, vs) h1. fold (gin_Header name) vs h1) hs h name = Some [v]"
  using assms
proof (induction hs arbitrary: h)
  case Nil
  then show ?case by simp
next
  case (Cons p hs)
  obtain m ws where p: "p = (m, ws)" by (cases p)
  show ?case
  proof (cases "(name, [v]) = p")
    case True
    with Cons.prems p have "name \<notin> fst ` set hs" by auto
    then have "fold (\<lambda>(name, vs) h1. fold (gin_Header name) vs h1) hs (gin_Header name v h) name
                 = gin_Header name v h name"
      by (rule copied_header_other)
    moreover have "gin_Header name v h name = Some [v]"
      using Cons.prems(3) by (simp add: gin_Header_def)
    ultimately show ?thesis
      using True p by auto
  next
    case False
    with Cons.prems have "distinct (map fst hs)" and "(name, [v]) \<in> set hs" by auto
    with Cons.IH Cons.prems(3) p show ?thesis by simp
  qed
qed

lemma gin_WriteContentType_kept:
  "h name = Some (v # vs) \<Longrightarrow> gin_WriteContentType ct h name = Some (v # vs)"
  by (cases "name = ''Content-Type''") (auto simp: gin_WriteContentType_def split: option.splits list.splits)

lemma quiet_before_RunSteps:
  "filter (\<lambda>ev. is_header ev \<or> is_response ev) (Effects (before_RunSteps c rq)) = []"
  by (simp add: before_RunSteps_def)

lemma client_of_afterRunSteps:
  assumes body: "ReadAllBody (Response runRes) = Inr bs"
    and quiet: "filter (\<lambda>ev. is_header ev \<or> is_response ev) (Effects s) = []"
  shows "client_of h (Effects (afterRunSteps d r kc rc cacheKey runRes s)) =
           DataWritten (StatusCode (Response runRes))
             (gin_WriteContentType ''application/json''
               (fold (\<lambda>(name, vs) h1. fold (gin_Header name) vs h1) (Header (Response runRes)) h))
             bs"
proof -
  define s1 where
    "s1 = emit (StatsTiming ''bricksllm.proxy.get_route_handeler.latency'')
            (c_Set ''model'' (VString (Model runRes)) s)"
  define s4 where
    "s4 = (if StatusCode (Response runRes) = 200
           then onStatusOK d r kc rc cacheKey runRes bs s1 else onStatusNotOK d bs s1)"
  have q1: "filter (\<lambda>ev. is_header ev \<or> is_response ev) (Effects s1) = []"
    using quiet by (simp add: s1_def)
  have q4: "filter (\<lambda>ev. is_header ev \<or> is_response ev) (Effects s4) = []"
    unfolding s4_def using q1
    by (cases "StatusCode (Response runRes) = 200")
       (simp_all add: filter_onStatusOK filter_onStatusNotOK)
  have "Effects (afterRunSteps d r kc rc cacheKey runRes s) =
          Effects s4 @ (header_pairs (Header (Response runRes))
            @ [RespData (StatusCode (Response runRes)) ''application/json'' bs, BodyClose, RunResCancel])"
    unfolding afterRunSteps_read [OF body] s4_def s1_def
    by (simp add: Effects_copyHeaders)
  then show ?thesis
    by (simp add: client_of_skip [OF q4] client_of_header_pairs)
qed

subsection \<open>The concrete runs\<close>

lemmas demo_defs =
  demo_deps_def demo_usage_def demo_recorder_def demo_key_def demo_request_def demo_route_def
  demo_settings_def demo_context_def demo_upstream_def demo_run_def

lemmas handler_defs =
  getRouteHandler_def lookupCache_def runRoute_def afterRunSteps_def onStatusOK_def
  onStatusNotOK_def storeResponse_def parseResult_def parseResult_locals_def copyHeaders_def
  settingsMap_of_def JSON_def c_Data_def logError_def emit_def c_Set_def c_GetString_def
  http_StatusOK_def http_StatusUnauthorized_def http_StatusNotFound_def
  http_StatusRequestTimeout_def http_StatusInternalServerError_def Let_def

lemma demo_reaches:
  "reaches_RunSteps (demo_run out) (demo_context ''miss'' ttl) demo_request demo_key
     (demo_route ttl) demo_settings"
  by (simp add: reaches_RunSteps_def cache_hit_def ctx_string_def demo_defs)

lemma demo_run_steps:
  "RunSteps (demo_run out) rc rq = out"
  by (simp add: demo_run_def demo_deps_def)

section \<open>The route handler\<close>

text \<open>
  C1. A cache hit is answered from the cache alone: when the context holds the key and the
  route, \<open>cache_key\<close> is not empty and \<open>GetBytes\<close> returns a non-empty slice without
  error, the handler answers 200 with exactly those bytes. The whole run is two counters,
  one timing, the lookup, the context key \<open>provider\<close> set to \<open>cached\<close>, and the answer:
  no route step is run, nothing is parsed or accounted, and nothing else is called.
\<close>

theorem cache_hit_short_circuit:
  assumes "Request c = Some req"
    and "CtxKeys c ''key'' = Some (VKey kc)"
    and "CtxKeys c ''route_config'' = Some (VRoute rc)"
    and "ctx_string c ''cache_key'' \<noteq> []"
    and "GetBytes d (ctx_string c ''cache_key'') = Inr bs"
    and "bs \<noteq> []"
  shows "getRouteHandler d r c =
           \<lparr>Keys = (CtxKeys c)(''provider'' \<mapsto> VString ''cached''),
            Effects = [StatsIncr ''bricksllm.proxy.get_route_handeler.requests'',
                       CacheGetBytes (ctx_string c ''cache_key''),
                       StatsIncr ''bricksllm.proxy.get_route_handeler.success'',
                       StatsTiming ''bricksllm.proxy.get_route_handeler.success_latency'',
                       RespData 200 ''application/json'' bs]\<rparr>"
proof -
  define s0 where
    "s0 = emit (StatsIncr ''bricksllm.proxy.get_route_handeler.requests'')
            \<lparr>Keys = CtxKeys c, Effects = []\<rparr>"
  have keys: "Keys s0 = CtxKeys c"
    by (simp add: s0_def)
  have str: "c_GetString s0 ''cache_key'' = ctx_string c ''cache_key''"
    by (simp add: c_GetString_def ctx_string_def keys)
  have "getRouteHandler d r c = lookupCache d r req kc rc s0"
    using assms(1-3) by (simp add: getRouteHandler_def Let_def s0_def [symmetric] keys)
  also have "\<dots> = c_Data http_StatusOK ''application/json'' bs
                  (c_Set ''provider'' (VString ''cached'')
                    (emit (StatsTiming ''bricksllm.proxy.get_route_handeler.success_latency'')
                      (emit (StatsIncr ''bricksllm.proxy.get_route_handeler.success'')
                        (emit (CacheGetBytes (ctx_string c ''cache_key'')) s0))))"
    using assms(4-6) by (simp add: lookupCache_def Let_def str)
  also have "\<dots> = \<lparr>Keys = (CtxKeys c)(''provider'' \<mapsto> VString ''cached''),
            Effects = [StatsIncr ''bricksllm.proxy.get_route_handeler.requests'',
                       CacheGetBytes (ctx_string c ''cache_key''),
                       StatsIncr ''bricksllm.proxy.get_route_handeler.success'',
                       StatsTiming ''bricksllm.proxy.get_route_handeler.success_latency'',
                       RespData 200 ''application/json'' bs]\<rparr>"
    by (simp add: s0_def emit_def c_Set_def c_Data_def http_StatusOK_def)
  finally show ?thesis .
qed

text \<open>
  The claim at work: the key \<open>hit\<close> is in the cache.
\<close>

theorem cache_hit_short_circuit_witness:
  "ctx_string (demo_context ''hit'' ''60s'') ''cache_key'' = ''hit''
   \<and> GetBytes demo_deps ''hit'' = Inr ''cached-body''
   \<and> getRouteHandler demo_deps demo_recorder (demo_context ''hit'' ''60s'') =
       \<lparr>Keys = (CtxKeys (demo_context ''hit'' ''60s''))(''provider'' \<mapsto> VString ''cached''),
        Effects = [StatsIncr ''bricksllm.proxy.get_route_handeler.requests'',
                   CacheGetBytes ''hit'',
                   StatsIncr ''bricksllm.proxy.get_route_handeler.success'',
                   StatsTiming ''bricksllm.proxy.get_route_handeler.success_latency'',
                   RespData 200 ''application/json'' ''cached-body'']\<rparr>"
proof -
  have k: "ctx_string (demo_context ''hit'' ''60s'') ''cache_key'' = ''hit''"
    by (simp add: ctx_string_def demo_context_def)
  have h1: "Request (demo_context ''hit'' ''60s'') = Some demo_request"
    and h2: "CtxKeys (demo_context ''hit'' ''60s'') ''key'' = Some (VKey demo_key)"
    and h3: "CtxKeys (demo_context ''hit'' ''60s'') ''route_config'' = Some (VRoute (demo_route ''60s''))"
    by (simp_all add: demo_context_def)
  have h4: "ctx_string (demo_context ''hit'' ''60s'') ''cache_key'' \<noteq> []"
    by (simp add: k)
  have h5: "GetBytes demo_deps (ctx_string (demo_context ''hit'' ''60s'') ''cache_key'')
              = Inr ''cached-body''"
    by (simp add: k demo_deps_def)
  have h6: "''cached-body'' \<noteq> []"
    by simp
  from cache_hit_short_circuit [OF h1 h2 h3 h4 h5 h6, of demo_recorder] h5 k
  show ?thesis by simp
qed

text \<open>
  C2, as the code has it. When the route steps end with a response whose status is not 2xx
  and whose body is read without error, the handler answers the client with that status and
  that body, unchanged, after calling \<open>c.Header\<close> once for every name/value pair of the
  upstream header and for nothing else; so every upstream header that holds a single
  non-empty value is on the client response with that value. When reading the body fails,
  the handler answers 500 and copies no header. The names of the header are distinct, as
  the keys of a Go map are.
\<close>
theorem upstream_error_pass_through:
  assumes "reaches_RunSteps d c req kc rc settings"
    and "RunSteps d rc (route_request kc req settings) = Inr runRes"
    and "StatusCode (Response runRes) < 200 \<or> 299 < StatusCode (Response runRes)"
    and "distinct (map fst (Header (Response runRes)))"
  shows "case ReadAllBody (Response runRes) of
           Inr bs \<Rightarrow>
             (\<exists>hdr. client_of h (Effects (getRouteHandler d r c))
                       = DataWritten (StatusCode (Response runRes)) hdr bs
                    \<and> (\<forall>name v. (name, [v]) \<in> set (Header (Response runRes)) \<and> v \<noteq> []
                          \<longrightarrow> hdr name = Some [v]))
             \<and> responses (getRouteHandler d r c)
                 = [RespData (StatusCode (Response runRes)) ''application/json'' bs]
             \<and> filter is_header (Effects (getRouteHandler d r c))
                 = header_pairs (Header (Response runRes))
         | Inl err \<Rightarrow>
             client_of h (Effects (getRouteHandler d r c))
               = JSONWritten 500 ''[BricksLLM] failed to read route response body''
             \<and> filter is_header (Effects (getRouteHandler d r c)) = []"
proof (cases "ReadAllBody (Response runRes)")
  case (Inr bs)
  have run: "getRouteHandler d r c =
               afterRunSteps d r kc rc (ctx_string c ''cache_key'') runRes
                 (before_RunSteps c (route_request kc req settings))"
    using assms(2) by (simp add: getRouteHandler_reaches [OF assms(1)])
  have cl: "client_of h (Effects (getRouteHandler d r c)) =
              DataWritten (StatusCode (Response runRes))
                (gin_WriteContentType ''application/json''
                  (fold (\<lambda>(name, vs) h1. fold (gin_Header name) vs h1) (Header (Response runRes)) h))
                bs"
    unfolding run by (rule client_of_afterRunSteps [OF Inr quiet_before_RunSteps])
  have hd: "gin_WriteContentType ''application/json''
              (fold (\<lambda>(name, vs) h1. fold (gin_Header name) vs h1) (Header (Response runRes)) h) name
            = Some [v]"
    if "(name, [v]) \<in> set (Header (Response runRes))" and "v \<noteq> []" for name v
    by (rule gin_WriteContentType_kept) (rule copied_header_single [OF assms(4) that])
  have rs: "responses (getRouteHandler d r c)
              = [RespData (StatusCode (Response runRes)) ''application/json'' bs]"
    and hs: "filter is_header (Effects (getRouteHandler d r c))
              = header_pairs (Header (Response runRes))"
    unfolding run responses_def
    by (simp_all add: responses_afterRunSteps [OF Inr] headers_afterRunSteps [OF Inr]
          responses_before_RunSteps headers_before_RunSteps)
  from cl hd rs hs show ?thesis
    unfolding Inr by auto
next
  case (Inl err)
  have run: "getRouteHandler d r c =
               afterRunSteps d r kc rc (ctx_string c ''cache_key'') runRes
                 (before_RunSteps c (route_request kc req settings))"
    using assms(2) by (simp add: getRouteHandler_reaches [OF assms(1)])
  have q: "filter (\<lambda>ev. is_header ev \<or> is_response ev)
             (Effects (before_RunSteps c (route_request kc req settings))) = []"
    by (rule quiet_before_RunSteps)
  have "client_of h (Effects (getRouteHandler d r c))
          = JSONWritten 500 ''[BricksLLM] failed to read route response body''"
    unfolding run afterRunSteps_unread [OF Inl] by (simp add: client_of_skip [OF q])
  moreover have "filter is_header (Effects (getRouteHandler d r c)) = []"
    unfolding run afterRunSteps_unread [OF Inl] by (simp add: headers_before_RunSteps)
  ultimately show ?thesis
    unfolding Inl by simp
qed

text \<open>
  The amended claim at work: an upstream 429 whose \<open>Retry-After\<close> holds one value, and
  an upstream 429 whose body cannot be read.
\<close>
theorem upstream_error_pass_through_witness:
  "distinct (map fst (Header (Response (demo_upstream 429 ''rate-limited''))))
   \<and> (''Retry-After'', [''1'']) \<in> set (Header (Response (demo_upstream 429 ''rate-limited'')))
   \<and> sent_header (client_of Map.empty (Effects (getRouteHandler
         (demo_run (Inr (demo_upstream 429 ''rate-limited''))) demo_recorder
         (demo_context ''miss'' ''60s'')))) ''Retry-After'' = Some [''1'']
   \<and> responses (getRouteHandler (demo_run (Inr (demo_upstream 429 ''rate-limited''))) demo_recorder
        (demo_context ''miss'' ''60s''))
       = [RespData 429 ''application/json'' ''rate-limited'']
   \<and> client_of Map.empty (Effects (getRouteHandler (demo_run (Inr demo_unreadable)) demo_recorder
        (demo_context ''miss'' ''60s'')))
       = JSONWritten 500 ''[BricksLLM] failed to read route response body''"
proof -
  have h2: "RunSteps (demo_run (Inr (demo_upstream 429 ''rate-limited''))) (demo_route ''60s'')
              (route_request demo_key demo_request demo_settings)
            = Inr (demo_upstream 429 ''rate-limited'')"
    by (rule demo_run_steps)
  have h3: "StatusCode (Response (demo_upstream 429 ''rate-limited'')) < 200
            \<or> 299 < StatusCode (Response (demo_upstream 429 ''rate-limited''))"
    by (simp add: demo_upstream_def)
  have h4: "distinct (map fst (Header (Response (demo_upstream 429 ''rate-limited''))))"
    by (simp add: demo_upstream_def)
  have m: "(''Retry-After'', [''1'']) \<in> set (Header (Response (demo_upstream 429 ''rate-limited'')))"
    by (simp add: demo_upstream_def)
  have b: "ReadAllBody (Response (demo_upstream 429 ''rate-limited'')) = Inr ''rate-limited''"
    by (simp add: demo_upstream_def)
  have u2: "RunSteps (demo_run (Inr demo_unreadable)) (demo_route ''60s'')
              (route_request demo_key demo_request demo_settings) = Inr demo_unreadable"
    by (rule demo_run_steps)
  have u3: "StatusCode (Response demo_unreadable) < 200 \<or> 299 < StatusCode (Response demo_unreadable)"
    and u4: "distinct (map fst (Header (Response demo_unreadable)))"
    and ub: "ReadAllBody (Response demo_unreadable) = Inl (ErrorString ''unexpected EOF'')"
    by (simp_all add: demo_unreadable_def)
  from upstream_error_pass_through [OF demo_reaches h2 h3 h4, where r = demo_recorder and h = Map.empty]
  obtain hdr where
    1: "client_of Map.empty (Effects (getRouteHandler
          (demo_run (Inr (demo_upstream 429 ''rate-limited''))) demo_recorder
          (demo_context ''miss'' ''60s''))) = DataWritten 429 hdr ''rate-limited''"
    and 2: "hdr ''Retry-After'' = Some [''1'']"
    and 3: "responses (getRouteHandler (demo_run (Inr (demo_upstream 429 ''rate-limited'')))
              demo_recorder (demo_context ''miss'' ''60s''))
            = [RespData 429 ''application/json'' ''rate-limited'']"
    unfolding b using m by (auto simp: demo_upstream_def)
  from upstream_error_pass_through [OF demo_reaches u2 u3 u4, where r = demo_recorder and h = Map.empty]
  have 4: "client_of Map.empty (Effects (getRouteHandler (demo_run (Inr demo_unreadable))
             demo_recorder (demo_context ''miss'' ''60s'')))
           = JSONWritten 500 ''[BricksLLM] failed to read route response body''"
    unfolding ub by simp
  from h4 m 1 2 3 4 show ?thesis by simp
qed

text \<open>
  C2 as stated fails twice. An upstream 429 whose \<open>Set-Cookie\<close> holds \<open>a=1\<close> and
  \<open>b=2\<close> reaches the client with \<open>b=2\<close> alone: the second call of \<open>c.Header\<close>
  replaces what the first one set. An upstream 429 whose body cannot be read is answered
  with 500 and without any of its headers.
\<close>
theorem upstream_error_pass_through_counterexample:
  "map_of (Header (Response (demo_upstream 429 ''rate-limited''))) ''Set-Cookie''
     = Some [''a=1'', ''b=2'']
   \<and> sent_header (client_of Map.empty (Effects (getRouteHandler
         (demo_run (Inr (demo_upstream 429 ''rate-limited''))) demo_recorder
         (demo_context ''miss'' ''60s'')))) ''Set-Cookie'' = Some [''b=2'']
   \<and> StatusCode (Response demo_unreadable) = 429
   \<and> responses (getRouteHandler (demo_run (Inr demo_unreadable)) demo_recorder
        (demo_context ''miss'' ''60s''))
       = [RespJSON 500 ''[BricksLLM] failed to read route response body'']
   \<and> filter is_header (Effects (getRouteHandler (demo_run (Inr demo_unreadable)) demo_recorder
        (demo_context ''miss'' ''60s''))) = []"
  by (simp add: handler_defs demo_defs demo_unreadable_def responses_def gin_Header_def
        gin_WriteContentType_def)

text \<open>
  C4. A failure of response accounting does not fail the client response: when the upstream
  status is 200 (the only status for which \<open>parseResult\<close> is called) and \<open>parseResult\<close>
  returns an error, the handler still answers 200 with the upstream body, and the error is
  logged.
\<close>

theorem accounting_failure_keeps_response:
  assumes "reaches_RunSteps d c req kc rc settings"
    and "RunSteps d rc (route_request kc req settings) = Inr runRes"
    and "ReadAllBody (Response runRes) = Inr bs"
    and "StatusCode (Response runRes) = 200"
    and "fst (parseResult_locals d (ctx_string c ''encoding_format'') (ShouldRunEmbeddings rc) bs
                (Model runRes) (Provider runRes)) = Some err"
  shows "responses (getRouteHandler d r c) = [RespData 200 ''application/json'' bs]
         \<and> LogError ''error when parsing run steps result'' err
             \<in> set (Effects (getRouteHandler d r c))"
proof
  show "responses (getRouteHandler d r c) = [RespData 200 ''application/json'' bs]"
    using assms(2,4)
    by (simp add: getRouteHandler_reaches [OF assms(1)] responses_def
          responses_afterRunSteps [OF assms(3)] responses_before_RunSteps)
next
  have "LogError ''error when parsing run steps result'' err
          \<in> set (Effects (onStatusOK d r kc rc (ctx_string c ''cache_key'') runRes bs
                (emit (StatsTiming ''bricksllm.proxy.get_route_handeler.latency'')
                  (c_Set ''model'' (VString (Model runRes))
                    (before_RunSteps c (route_request kc req settings))))))"
    by (rule parse_error_logged) (simp add: c_GetString_at_parse assms(5))
  then show "LogError ''error when parsing run steps result'' err
               \<in> set (Effects (getRouteHandler d r c))"
    using assms(2,4)
    by (simp add: getRouteHandler_reaches [OF assms(1)] afterRunSteps_read [OF assms(3)]
          Effects_copyHeaders)
qed

text \<open>
  The claim at work: an upstream 200 whose body does not decode.
\<close>

theorem accounting_failure_keeps_response_witness:
  "fst (parseResult_locals (demo_run (Inr (demo_upstream 200 ''truncated''))) [] False ''truncated''
          ''gpt-4'' ''openai'')
     = Some (ErrorString ''unexpected end of JSON input'')
   \<and> responses (getRouteHandler (demo_run (Inr (demo_upstream 200 ''truncated''))) demo_recorder
        (demo_context ''miss'' ''60s''))
       = [RespData 200 ''application/json'' ''truncated'']
   \<and> LogError ''error when parsing run steps result'' (ErrorString ''unexpected end of JSON input'')
       \<in> set (Effects (getRouteHandler (demo_run (Inr (demo_upstream 200 ''truncated'')))
             demo_recorder (demo_context ''miss'' ''60s'')))"
proof -
  have h2: "RunSteps (demo_run (Inr (demo_upstream 200 ''truncated''))) (demo_route ''60s'')
              (route_request demo_key demo_request demo_settings)
            = Inr (demo_upstream 200 ''truncated'')"
    by (rule demo_run_steps)
  have h3: "ReadAllBody (Response (demo_upstream 200 ''truncated'')) = Inr ''truncated''"
    by (simp add: demo_upstream_def)
  have h4: "StatusCode (Response (demo_upstream 200 ''truncated'')) = 200"
    by (simp add: demo_upstream_def)
  have e: "fst (parseResult_locals (demo_run (Inr (demo_upstream 200 ''truncated''))) [] False
              ''truncated'' ''gpt-4'' ''openai'')
           = Some (ErrorString ''unexpected end of JSON input'')"
    by (simp add: parseResult_locals_def demo_run_def demo_deps_def)
  have h5: "fst (parseResult_locals (demo_run (Inr (demo_upstream 200 ''truncated'')))
                  (ctx_string (demo_context ''miss'' ''60s'') ''encoding_format'')
                  (ShouldRunEmbeddings (demo_route ''60s'')) ''truncated''
                  (Model (demo_upstream 200 ''truncated''))
                  (Provider (demo_upstream 200 ''truncated'')))
            = Some (ErrorString ''unexpected end of JSON input'')"
    using e by (simp add: ctx_string_def demo_context_def demo_route_def demo_upstream_def)
  from accounting_failure_keeps_response [OF demo_reaches h2 h3 h4 h5, of demo_recorder] e
  show ?thesis by simp
qed

text \<open>
  C5. When \<open>RunSteps\<close> fails with an error that is, or wraps, the deadline error, the
  handler answers 408 with the message \<open>[BricksLLM] request timeout\<close>; any other error of
  \<open>RunSteps\<close> is answered with 500.
\<close>

theorem run_steps_error_status:
  assumes "reaches_RunSteps d c req kc rc settings"
    and "RunSteps d rc (route_request kc req settings) = Inl err"
  shows "responses (getRouteHandler d r c)
           = [if errors_Is_DeadlineExceeded err
              then RespJSON 408 ''[BricksLLM] request timeout''
              else RespJSON 500 ''[BricksLLM] cannot run route steps'']"
  using assms(2)
  by (simp add: getRouteHandler_reaches [OF assms(1)] responses_def responses_before_RunSteps
        http_StatusRequestTimeout_def http_StatusInternalServerError_def)

text \<open>
  The claim at work: a wrapped deadline error, and a connection error.
\<close>

theorem run_steps_error_status_witness:
  "responses (getRouteHandler (demo_run (Inl (Wrapped ''step 0'' DeadlineExceeded))) demo_recorder
      (demo_context ''miss'' ''60s''))
     = [RespJSON 408 ''[BricksLLM] request timeout'']
   \<and> responses (getRouteHandler (demo_run (Inl (ErrorString ''connection refused''))) demo_recorder
      (demo_context ''miss'' ''60s''))
     = [RespJSON 500 ''[BricksLLM] cannot run route steps'']"
proof -
  have a: "RunSteps (demo_run (Inl (Wrapped ''step 0'' DeadlineExceeded))) (demo_route ''60s'')
             (route_request demo_key demo_request demo_settings)
           = Inl (Wrapped ''step 0'' DeadlineExceeded)"
    by (rule demo_run_steps)
  have b: "RunSteps (demo_run (Inl (ErrorString ''connection refused''))) (demo_route ''60s'')
             (route_request demo_key demo_request demo_settings)
           = Inl (ErrorString ''connection refused'')"
    by (rule demo_run_steps)
  from run_steps_error_status [OF demo_reaches a, of demo_recorder]
       run_steps_error_status [OF demo_reaches b, of demo_recorder]
  show ?thesis by simp
qed

text \<open>
  C6. Storing into the cache is best effort: whatever \<open>ParseDuration\<close> and \<open>StoreBytes\<close>
  return, the handler answers with the upstream status and body; and \<open>StoreBytes\<close> is called
  only when the upstream status is 200, the cache key is not empty, the route has a cache
  configuration and its TTL parses, once, with the key, the body and the parsed TTL.
\<close>

theorem cache_store_best_effort:
  assumes "reaches_RunSteps d c req kc rc settings"
    and "RunSteps d rc (route_request kc req settings) = Inr runRes"
    and "ReadAllBody (Response runRes) = Inr bs"
  shows "responses (getRouteHandler d r c)
           = [RespData (StatusCode (Response runRes)) ''application/json'' bs]
         \<and> filter is_store (Effects (getRouteHandler d r c))
           = (if StatusCode (Response runRes) = 200 \<and> ctx_string c ''cache_key'' \<noteq> [] then
                (case RouteCacheConfig rc of
                   None \<Rightarrow> []
                 | Some cc \<Rightarrow>
                     (case ParseDuration d (Ttl cc) of
                        Inl err \<Rightarrow> []
                      | Inr parsed \<Rightarrow> [CacheStoreBytes (ctx_string c ''cache_key'') bs parsed]))
              else [])"
  using assms(2)
  by (simp add: getRouteHandler_reaches [OF assms(1)] responses_def
        responses_afterRunSteps [OF assms(3)] stores_afterRunSteps [OF assms(3)]
        responses_before_RunSteps stores_before_RunSteps)

text \<open>
  The claim at work: a store that fails, and a TTL that does not parse; the answer is the
  upstream's 200 both times.
\<close>

theorem cache_store_best_effort_witness:
  "StoreBytes (demo_run (Inr (demo_upstream 200 ''upstream-body''))) ''miss'' ''upstream-body''
       60000000000 = Some (ErrorString ''redis: connection refused'')
   \<and> responses (getRouteHandler (demo_run (Inr (demo_upstream 200 ''upstream-body''))) demo_recorder
        (demo_context ''miss'' ''60s''))
       = [RespData 200 ''application/json'' ''upstream-body'']
   \<and> filter is_store (Effects (getRouteHandler (demo_run (Inr (demo_upstream 200 ''upstream-body'')))
        demo_recorder (demo_context ''miss'' ''60s'')))
       = [CacheStoreBytes ''miss'' ''upstream-body'' 60000000000]
   \<and> ParseDuration (demo_run (Inr (demo_upstream 200 ''upstream-body''))) ''soon''
       = Inl (ErrorString ''time: invalid duration'')
   \<and> responses (getRouteHandler (demo_run (Inr (demo_upstream 200 ''upstream-body''))) demo_recorder
        (demo_context ''miss'' ''soon''))
       = [RespData 200 ''application/json'' ''upstream-body'']
   \<and> filter is_store (Effects (getRouteHandler (demo_run (Inr (demo_upstream 200 ''upstream-body'')))
        demo_recorder (demo_context ''miss'' ''soon''))) = []"
proof -
  have h2: "RunSteps (demo_run (Inr (demo_upstream 200 ''upstream-body''))) (demo_route ttl)
              (route_request demo_key demo_request demo_settings)
            = Inr (demo_upstream 200 ''upstream-body'')" for ttl
    by (rule demo_run_steps)
  have h3: "ReadAllBody (Response (demo_upstream 200 ''upstream-body'')) = Inr ''upstream-body''"
    by (simp add: demo_upstream_def)
  have k: "ctx_string (demo_context ''miss'' ttl) ''cache_key'' = ''miss''" for ttl
    by (simp add: ctx_string_def demo_context_def)
  from cache_store_best_effort [OF demo_reaches [where ttl = "''60s''"] h2 h3, where r = demo_recorder]
       cache_store_best_effort [OF demo_reaches [where ttl = "''soon''"] h2 h3, where r = demo_recorder]
  show ?thesis
    by (simp add: k demo_upstream_def demo_route_def demo_run_def demo_deps_def)
qed

text \<open>
  C7, as the code has it. On a run that reaches the route steps the handler attaches the
  model under \<open>model\<close>. When the upstream status is 200 and the body is read,
  \<open>parseResult\<close> attaches, on every return, with or without an error, the provider under
  \<open>provider\<close>, a cost in USD under \<open>costInUsd\<close>, and the prompt and completion token
  counts under \<open>promptTokenCount\<close> and \<open>completionTokenCount\<close>. For a chat completion
  the counts are those of the decoded usage block and the cost is what \<open>EstimateTotalCost\<close>
  of the provider's estimator returned for the response's model and these two counts. For
  embeddings the prompt count is that of the usage block, the completion count is 0, and
  the cost is what \<open>EstimateEmbeddingsInputCost\<close> returned for the route's model and the
  total count, or 0 when it returned an error. For a provider other than \<open>azure\<close> and
  \<open>openai\<close> the cost is 0, and when the body does not decode the cost and both counts are
  0. The cost is never multiplied by 1000000 or rounded. For every other status, and when
  the body cannot be read, the model is all that is attached.
\<close>
theorem accounting_attaches_usd_cost:
  assumes "reaches_RunSteps d c req kc rc settings"
    and "RunSteps d rc (route_request kc req settings) = Inr runRes"
  shows "Keys (getRouteHandler d r c) =
     (case ReadAllBody (Response runRes) of
        Inl err \<Rightarrow> (CtxKeys c)(''model'' \<mapsto> VString (Model runRes))
      | Inr bs \<Rightarrow>
          if StatusCode (Response runRes) \<noteq> 200
          then (CtxKeys c)(''model'' \<mapsto> VString (Model runRes))
          else if ShouldRunEmbeddings rc then
            (case (if ctx_string c ''encoding_format'' = ''base64''
                   then UnmarshalEmbeddingBase64 d bs else UnmarshalEmbedding d bs) of
               Inl err \<Rightarrow>
                 (CtxKeys c)(''model'' \<mapsto> VString (Model runRes),
                   ''provider'' \<mapsto> VString (Provider runRes), ''costInUsd'' \<mapsto> VFloat 0,
                   ''promptTokenCount'' \<mapsto> VInt 0, ''completionTokenCount'' \<mapsto> VInt 0)
             | Inr u \<Rightarrow>
                 (CtxKeys c)(''model'' \<mapsto> VString (Model runRes),
                   ''provider'' \<mapsto> VString (Provider runRes),
                   ''costInUsd'' \<mapsto> VFloat
                      (if Provider runRes = ''azure'' then
                         (case aoe_EstimateEmbeddingsInputCost d (Model runRes) (TotalTokens u) of
                            (ecost, None) \<Rightarrow> ecost | (ecost, Some err) \<Rightarrow> 0)
                       else if Provider runRes = ''openai'' then
                         (case e_EstimateEmbeddingsInputCost d (Model runRes) (TotalTokens u) of
                            (ecost, None) \<Rightarrow> ecost | (ecost, Some err) \<Rightarrow> 0)
                       else 0),
                   ''promptTokenCount'' \<mapsto> VInt (PromptTokens u),
                   ''completionTokenCount'' \<mapsto> VInt 0))
          else
            (case UnmarshalChatCompletion d bs of
               Inl err \<Rightarrow>
                 (CtxKeys c)(''model'' \<mapsto> VString (Model runRes),
                   ''provider'' \<mapsto> VString (Provider runRes), ''costInUsd'' \<mapsto> VFloat 0,
                   ''promptTokenCount'' \<mapsto> VInt 0, ''completionTokenCount'' \<mapsto> VInt 0)
             | Inr chatRes \<Rightarrow>
                 (CtxKeys c)(''model'' \<mapsto> VString (Model runRes),
                   ''provider'' \<mapsto> VString (Provider runRes),
                   ''costInUsd'' \<mapsto> VFloat
                      (if Provider runRes = ''azure'' then
                         fst (aoe_EstimateTotalCost d (ChatModel chatRes)
                                (PromptTokens (ChatUsage chatRes))
                                (CompletionTokens (ChatUsage chatRes)))
                       else if Provider runRes = ''openai'' then
                         fst (e_EstimateTotalCost d (ChatModel chatRes)
                                (PromptTokens (ChatUsage chatRes))
                                (CompletionTokens (ChatUsage chatRes)))
                       else 0),
                   ''promptTokenCount'' \<mapsto> VInt (PromptTokens (ChatUsage chatRes)),
                   ''completionTokenCount'' \<mapsto> VInt (CompletionTokens (ChatUsage chatRes)))))"
proof -
  have run: "getRouteHandler d r c =
               afterRunSteps d r kc rc (ctx_string c ''cache_key'') runRes
                 (before_RunSteps c (route_request kc req settings))"
    using assms(2) by (simp add: getRouteHandler_reaches [OF assms(1)])
  show ?thesis
  proof (cases "ReadAllBody (Response runRes)")
    case (Inl err)
    then show ?thesis
      unfolding run Keys_afterRunSteps by (simp add: Keys_before_RunSteps)
  next
    case (Inr bs)
    show ?thesis
    proof (cases "StatusCode (Response runRes) = 200")
      case False
      then show ?thesis
        unfolding run Keys_afterRunSteps Inr by (simp add: Keys_before_RunSteps)
    next
      case True
      have g: "c_GetString (emit (StatsTiming ''bricksllm.proxy.get_route_handeler.latency'')
                 (c_Set ''model'' (VString (Model runRes))
                   (before_RunSteps c (route_request kc req settings)))) ''encoding_format''
               = ctx_string c ''encoding_format''"
        by (rule c_GetString_at_parse)
      show ?thesis
      proof (cases "ShouldRunEmbeddings rc")
        case emb: True
        show ?thesis
        proof (cases "if ctx_string c ''encoding_format'' = ''base64''
                      then UnmarshalEmbeddingBase64 d bs else UnmarshalEmbedding d bs")
          case (Inl err)
          then show ?thesis
            unfolding run Keys_afterRunSteps Inr
            using True emb
            by (simp add: parseResult_def parseResult_locals_def g Keys_before_RunSteps)
        next
          case u: (Inr u)
          then show ?thesis
            unfolding run Keys_afterRunSteps Inr
            using True emb
            by (simp add: parseResult_def parseResult_locals_def g Keys_before_RunSteps
                  split: prod.splits option.splits)
        qed
      next
        case chat: False
        show ?thesis
        proof (cases "UnmarshalChatCompletion d bs")
          case (Inl err)
          then show ?thesis
            unfolding run Keys_afterRunSteps Inr
            using True chat
            by (simp add: parseResult_def parseResult_locals_def g Keys_before_RunSteps)
        next
          case cr: (Inr chatRes)
          then show ?thesis
            unfolding run Keys_afterRunSteps Inr
            using True chat
            by (simp add: parseResult_def parseResult_locals_def g Keys_before_RunSteps
                  split: prod.splits option.splits)
        qed
      qed
    qed
  qed
qed

text \<open>
  The amended claim at work: an upstream 200 with two prompt tokens, one completion token
  and an estimate of an eighth of a dollar; and an upstream 204.
\<close>
theorem accounting_attaches_usd_cost_witness:
  "e_EstimateTotalCost (demo_run (Inr (demo_upstream 200 ''upstream-body''))) ''gpt-4'' 2 1
     = (1 / 8, None)
   \<and> Keys (getRouteHandler (demo_run (Inr (demo_upstream 200 ''upstream-body''))) demo_recorder
          (demo_context ''miss'' ''60s''))
     = (CtxKeys (demo_context ''miss'' ''60s''))
         (''model'' \<mapsto> VString ''gpt-4'', ''provider'' \<mapsto> VString ''openai'',
          ''costInUsd'' \<mapsto> VFloat (1 / 8), ''promptTokenCount'' \<mapsto> VInt 2,
          ''completionTokenCount'' \<mapsto> VInt 1)
   \<and> Keys (getRouteHandler (demo_run (Inr (demo_upstream 204 ''upstream-body''))) demo_recorder
          (demo_context ''miss'' ''60s''))
     = (CtxKeys (demo_context ''miss'' ''60s''))(''model'' \<mapsto> VString ''gpt-4'')"
proof -
  have h2: "RunSteps (demo_run (Inr (demo_upstream code ''upstream-body''))) (demo_route ''60s'')
              (route_request demo_key demo_request demo_settings)
            = Inr (demo_upstream code ''upstream-body'')" for code
    by (rule demo_run_steps)
  have e: "e_EstimateTotalCost (demo_run (Inr (demo_upstream 200 ''upstream-body'')))
             ''gpt-4'' 2 1 = (1 / 8, None)"
    by (simp add: demo_run_def demo_deps_def)
  have d: "UnmarshalChatCompletion (demo_run out) ''upstream-body''
             = Inr \<lparr>ChatModel = ''gpt-4'', ChatUsage = demo_usage\<rparr>" for out
    by (simp add: demo_run_def demo_deps_def)
  from accounting_attaches_usd_cost [OF demo_reaches h2 [of 200], where r = demo_recorder]
  have a: "Keys (getRouteHandler (demo_run (Inr (demo_upstream 200 ''upstream-body''))) demo_recorder
          (demo_context ''miss'' ''60s''))
     = (CtxKeys (demo_context ''miss'' ''60s''))
         (''model'' \<mapsto> VString ''gpt-4'', ''provider'' \<mapsto> VString ''openai'',
          ''costInUsd'' \<mapsto> VFloat (1 / 8), ''promptTokenCount'' \<mapsto> VInt 2,
          ''completionTokenCount'' \<mapsto> VInt 1)"
    using e by (simp add: d demo_upstream_def demo_route_def demo_usage_def)
  from accounting_attaches_usd_cost [OF demo_reaches h2 [of 204], where r = demo_recorder]
  have b: "Keys (getRouteHandler (demo_run (Inr (demo_upstream 204 ''upstream-body''))) demo_recorder
          (demo_context ''miss'' ''60s''))
     = (CtxKeys (demo_context ''miss'' ''60s''))(''model'' \<mapsto> VString ''gpt-4'')"
    by (simp add: demo_upstream_def)
  from e a b show ?thesis by simp
qed

text \<open>
  C7 as stated fails twice. An upstream 200 whose estimate is 0.125 USD leaves 0.125 under
  \<open>costInUsd\<close>, not the 125000 micro-USD the conversion gives, and no other key holds a
  cost. An upstream 201, a 2xx response not served from the cache, attaches the model and
  nothing else.
\<close>

theorem accounting_attaches_usd_cost_counterexample:
  "Keys (getRouteHandler (demo_run (Inr (demo_upstream 200 ''upstream-body''))) demo_recorder
          (demo_context ''miss'' ''60s''))
     = (CtxKeys (demo_context ''miss'' ''60s''))
         (''model'' \<mapsto> VString ''gpt-4'', ''provider'' \<mapsto> VString ''openai'',
          ''costInUsd'' \<mapsto> VFloat (1 / 8), ''promptTokenCount'' \<mapsto> VInt 2,
          ''completionTokenCount'' \<mapsto> VInt 1)
   \<and> spec_cost_micro_usd (1 / 8) = 125000
   \<and> VFloat (1 / 8) \<noteq> VFloat (real_of_int (spec_cost_micro_usd (1 / 8)))
   \<and> Keys (getRouteHandler (demo_run (Inr (demo_upstream 201 ''upstream-body''))) demo_recorder
          (demo_context ''miss'' ''60s''))
     = (CtxKeys (demo_context ''miss'' ''60s''))(''model'' \<mapsto> VString ''gpt-4'')"
  by (simp add: handler_defs demo_defs spec_cost_micro_usd_def)

section \<open>Shutdown\<close>

text \<open>
  C8, as the code has it. After the signal, \<open>main\<close> stops the event consumers, then the
  four refreshers, then shuts down the admin server and then the proxy server, each with a
  deadline of five seconds, then waits for the second deadline's context to be done, and
  returns; whatever the shutdowns return. When it returns nothing is running and no listener
  accepts.
\<close>

theorem shutdown_order:
  "filter (\<lambda>a. \<not> is_log a) (shutdown_calls shutdown_err) =
     [EventConsumerStop,
      MemDbStop MemStore, MemDbStop PsMemStore, MemDbStop CpMemStore, MemDbStop RMemStore,
      ServerShutdown AdminServer 5, ServerShutdown ProxyServer 5, CtxDoneWait, MainReturn]
   \<and> last (run_calls (shutdown_calls shutdown_err) process_at_signal) =
     \<lparr>consumersRunning = False, refreshing = [], accepting = [], exited = True\<rparr>"
  by (cases "shutdown_err AdminServer"; cases "shutdown_err ProxyServer")
     (simp_all add: shutdown_calls_def process_at_signal_def)

text \<open>
  C8 as stated fails: the first call after the signal stops the consumers while both
  listeners still accept, so the listeners are not closed first.
\<close>

theorem shutdown_order_counterexample:
  "hd (run_calls (shutdown_calls (\<lambda>sv. None)) process_at_signal) =
     \<lparr>consumersRunning = False, refreshing = [MemStore, PsMemStore, CpMemStore, RMemStore],
      accepting = [AdminServer, ProxyServer], exited = False\<rparr>
   \<and> \<not> spec_listeners_closed_first (run_calls (shutdown_calls (\<lambda>sv. None)) process_at_signal)"
  by (simp add: shutdown_calls_def process_at_signal_def spec_listeners_closed_first_def)

end
